theory Spec2Isabelle
  imports Main "HOL-Library.Log_Nat" "HOL-Library.Multiset"
begin

section \<open>JavaScript numbers\<close>

text \<open>
  The page (src/pages/layer-2.tsx) computes with JavaScript numbers, that is IEEE 754
  binary64 values. A number is NaN, an infinity, the negative zero, or a finite value
  \<open>Fin q\<close> whose exact value is the rational \<open>q\<close> (\<open>Fin 0\<close> is the positive zero).
  Every arithmetic operation computes the exact rational result and rounds it to the
  nearest double, ties to even (\<open>round_double\<close>); the special cases are written out.
\<close>

datatype jsnum = NaN | PosInf | NegInf | NegZero | Fin rat

text \<open>
  \<open>floorlog2 q\<close> is the binary exponent of a positive rational, the integer \<open>e\<close>
  with \<open>2^e \<le> q < 2^(e+1)\<close>: one less than the bit length of \<open>\<lfloor>q\<rfloor>\<close> from 1 on, and
  below 1 the negated bit length of \<open>\<lceil>1/q\<rceil> - 1\<close>.
\<close>

definition floorlog2 :: "rat \<Rightarrow> int" where
  "floorlog2 q = (if 1 \<le> q then bitlen \<lfloor>q\<rfloor> - 1 else - bitlen (\<lceil>1 / q\<rceil> - 1))"

definition round_half_even :: "rat \<Rightarrow> int" where
  "round_half_even q =
     (let n = \<lfloor>q\<rfloor>; r = q - of_int n
      in if r < 1 / 2 then n
         else if 1 / 2 < r then n + 1
         else if even n then n else n + 1)"

definition pow2 :: "int \<Rightarrow> rat" where
  "pow2 e = (if 0 \<le> e then 2 ^ nat e else 1 / 2 ^ nat (- e))"

text \<open>
  Rounding of a positive magnitude to 53 significant bits, with the least exponent
  \<open>-1074\<close> of the subnormal range; \<open>None\<close> is overflow beyond the largest double
  (the rounded value would need a binary exponent above 1023).
\<close>

definition round_mag :: "rat \<Rightarrow> rat option" where
  "round_mag q =
     (let e = max (floorlog2 q - 52) (- 1074);
          m = round_half_even (q / pow2 e)
      in if 1024 < e + bitlen m then None else Some (of_int m * pow2 e))"

definition round_double :: "rat \<Rightarrow> jsnum" where
  "round_double q =
     (if q = 0 then Fin 0
      else if 0 < q then (case round_mag q of None \<Rightarrow> PosInf | Some r \<Rightarrow> Fin r)
      else (case round_mag (- q) of None \<Rightarrow> NegInf
            | Some r \<Rightarrow> if r = 0 then NegZero else Fin (- r)))"

fun is_nan :: "jsnum \<Rightarrow> bool" where
  "is_nan NaN = True"
| "is_nan _ = False"

fun is_inf :: "jsnum \<Rightarrow> bool" where
  "is_inf PosInf = True"
| "is_inf NegInf = True"
| "is_inf _ = False"

fun is_zero :: "jsnum \<Rightarrow> bool" where
  "is_zero NegZero = True"
| "is_zero (Fin q) = (q = 0)"
| "is_zero _ = False"

text \<open>The sign bit.\<close>

fun is_neg :: "jsnum \<Rightarrow> bool" where
  "is_neg NegInf = True"
| "is_neg NegZero = True"
| "is_neg (Fin q) = (q < 0)"
| "is_neg _ = False"

text \<open>The exact value of a finite number (both zeros are 0).\<close>

fun val :: "jsnum \<Rightarrow> rat" where
  "val (Fin q) = q"
| "val _ = 0"

definition signed_inf :: "bool \<Rightarrow> jsnum" where
  "signed_inf neg = (if neg then NegInf else PosInf)"

definition signed_zero :: "bool \<Rightarrow> jsnum" where
  "signed_zero neg = (if neg then NegZero else Fin 0)"

fun js_neg :: "jsnum \<Rightarrow> jsnum" where
  "js_neg NaN = NaN"
| "js_neg PosInf = NegInf"
| "js_neg NegInf = PosInf"
| "js_neg NegZero = Fin 0"
| "js_neg (Fin q) = (if q = 0 then NegZero else Fin (- q))"

fun js_add :: "jsnum \<Rightarrow> jsnum \<Rightarrow> jsnum" where
  "js_add NaN _ = NaN"
| "js_add _ NaN = NaN"
| "js_add PosInf NegInf = NaN"
| "js_add NegInf PosInf = NaN"
| "js_add PosInf _ = PosInf"
| "js_add _ PosInf = PosInf"
| "js_add NegInf _ = NegInf"
| "js_add _ NegInf = NegInf"
| "js_add NegZero NegZero = NegZero"
| "js_add NegZero (Fin q) = Fin q"
| "js_add (Fin p) NegZero = Fin p"
| "js_add (Fin p) (Fin q) = round_double (p + q)"

definition js_sub :: "jsnum \<Rightarrow> jsnum \<Rightarrow> jsnum" where
  "js_sub a b = js_add a (js_neg b)"

definition js_mul :: "jsnum \<Rightarrow> jsnum \<Rightarrow> jsnum" where
  "js_mul a b =
     (if is_nan a \<or> is_nan b then NaN
      else if (is_inf a \<and> is_zero b) \<or> (is_zero a \<and> is_inf b) then NaN
      else if is_inf a \<or> is_inf b then signed_inf (is_neg a \<noteq> is_neg b)
      else if is_zero a \<or> is_zero b then signed_zero (is_neg a \<noteq> is_neg b)
      else (case round_double (val a * val b) of
              Fin r \<Rightarrow> if r = 0 then signed_zero (is_neg a \<noteq> is_neg b) else Fin r
            | r \<Rightarrow> r))"

definition js_div :: "jsnum \<Rightarrow> jsnum \<Rightarrow> jsnum" where
  "js_div a b =
     (if is_nan a \<or> is_nan b then NaN
      else if (is_inf a \<and> is_inf b) \<or> (is_zero a \<and> is_zero b) then NaN
      else if is_inf a \<or> is_zero b then signed_inf (is_neg a \<noteq> is_neg b)
      else if is_inf b \<or> is_zero a then signed_zero (is_neg a \<noteq> is_neg b)
      else (case round_double (val a / val b) of
              Fin r \<Rightarrow> if r = 0 then signed_zero (is_neg a \<noteq> is_neg b) else Fin r
            | r \<Rightarrow> r))"

text \<open>The comparison \<open>a > b\<close>: false as soon as one side is NaN; the two zeros are equal.\<close>

fun js_gt :: "jsnum \<Rightarrow> jsnum \<Rightarrow> bool" where
  "js_gt NaN _ = False"
| "js_gt _ NaN = False"
| "js_gt PosInf b = (b \<noteq> PosInf)"
| "js_gt NegInf _ = False"
| "js_gt _ PosInf = False"
| "js_gt _ NegInf = True"
| "js_gt a b = (val b < val a)"

text \<open>An array length or an integer literal as a number (exact below \<open>2^53\<close>).\<close>

definition js_of_nat :: "nat \<Rightarrow> jsnum" where
  "js_of_nat n = round_double (of_nat n)"

section \<open>Strings of numbers\<close>

definition digit_char :: "nat \<Rightarrow> char" where
  "digit_char d = ''0123456789'' ! d"

fun dec_digits :: "nat \<Rightarrow> string" where
  "dec_digits n = (if n < 10 then [digit_char n] else dec_digits (n div 10) @ [digit_char (n mod 10)])"

text \<open>
  \<open>Number.prototype.toFixed(f)\<close> (ECMA-262, 21.1.3.3), for \<open>0 \<le> f \<le> 100\<close>. A number that
  is not finite is rendered by Number::toString; so is a finite one of magnitude at
  least \<open>10^21\<close>, in exponent notation: that rendering is the parameter \<open>big\<close>, a function
  of the signed value. Otherwise \<open>n\<close> is the integer nearest to \<open>x * 10^f\<close>, the larger
  one of two, and its digits are split \<open>f\<close> places from the right.
\<close>

definition toFixed :: "(rat \<Rightarrow> string) \<Rightarrow> jsnum \<Rightarrow> nat \<Rightarrow> string" where
  "toFixed big num f =
     (case num of
        NaN \<Rightarrow> ''NaN''
      | PosInf \<Rightarrow> ''Infinity''
      | NegInf \<Rightarrow> ''-Infinity''
      | _ \<Rightarrow>
         (let x0 = val num;
              s = (if x0 < 0 then ''-'' else '''');
              x = (if x0 < 0 then - x0 else x0)
          in if 10 ^ 21 \<le> x then big x0
             else
               let n = nat \<lfloor>x * 10 ^ f + 1 / 2\<rfloor>;
                   m = (if n = 0 then ''0'' else dec_digits n);
                   m = (if f \<noteq> 0
                        then (let k = length m;
                                  m = (if k \<le> f then replicate (f + 1 - k) CHR ''0'' @ m else m);
                                  k = (if k \<le> f then f + 1 else k)
                              in take (k - f) m @ ''.'' @ drop (k - f) m)
                        else m)
               in s @ m))"

section \<open>Responses, errors and the component state\<close>

text \<open>
  What a \<open>try\<close> block of the page can throw: the rejections of \<open>getData\<close> (a failed
  request, a body that does not parse), the TypeError of a property read on
  \<open>undefined\<close>, the RangeError of the \<open>Intl.NumberFormat\<close> constructor.
  \<open>DataInsufficient\<close> is the error the specification names; no statement of
  layer-2.tsx throws it.
\<close>

datatype error = NetworkError | ParseError | TypeError | RangeError | DataInsufficient

text \<open>\<open>L2DataResponse\<close>: a point of the daily series is the tuple \<open>[string, number, number]\<close>.\<close>

type_synonym point = "string \<times> jsnum \<times> jsnum"

record L2Daily =
  data :: "point list"

record L2DataResponseItem =
  daily :: L2Daily

record L2DataResponse =
  layers2s :: L2DataResponseItem
  combined :: L2DataResponseItem
  bridges :: L2DataResponseItem

text \<open>
  \<open>FeeDataResponse\<close>: \<open>{ data: Array<{ id; results: { feeTransferEth } }> }\<close>. The fields
  \<open>id\<close> and \<open>data\<close> are named \<open>entry_id\<close> and \<open>fee_data\<close> here.
\<close>

record FeeResults =
  feeTransferEth :: jsnum

record FeeEntry =
  entry_id :: string
  results :: FeeResults

record FeeDataResponse =
  fee_data :: "FeeEntry list"

text \<open>
  The three \<open>useState\<close> cells, and what a run does that can be observed: the reads of
  \<open>dailyData[i]\<close>, the calls of the three setters, the calls of \<open>console.error\<close>,
  in the order they happen.
\<close>

datatype cell = TVL | PercentChangeL2 | AverageFee

datatype event = Read int | Write cell string | ConsoleError error

record state =
  tvl :: string
  percentChangeL2 :: string
  averageFee :: string
  trace :: "event list"

definition initial_state :: state where
  "initial_state =
     \<lparr>tvl = ''loading...'', percentChangeL2 = ''loading...'', averageFee = ''loading...'',
      trace = []\<rparr>"

text \<open>
  What the page takes from outside layer-2.tsx: \<open>getLocaleForNumberFormat\<close> of
  utils/translations, the \<open>Intl.NumberFormat\<close> of the runtime (its constructor throws
  a RangeError on a locale it rejects, else gives the \<open>format\<close> function), and
  Number::toString for the magnitudes from \<open>10^21\<close> on. The option \<open>notation\<close> is the
  field \<open>notation'\<close>.
\<close>

record NumberFormatOptions =
  style :: string
  currency :: string
  notation' :: string
  minimumSignificantDigits :: nat
  maximumSignificantDigits :: nat

record env =
  getLocaleForNumberFormat :: "string \<Rightarrow> string"
  NumberFormat :: "string \<Rightarrow> NumberFormatOptions \<Rightarrow> error + (jsnum \<Rightarrow> string)"
  NumberToString :: "rat \<Rightarrow> string"

section \<open>Statements that may throw\<close>

type_synonym 'a js = "state \<Rightarrow> (error + 'a) \<times> state"

definition js_return :: "'a \<Rightarrow> 'a js" where
  "js_return x s = (Inr x, s)"

definition js_throw :: "error \<Rightarrow> 'a js" where
  "js_throw e s = (Inl e, s)"

definition js_bind :: "'a js \<Rightarrow> ('a \<Rightarrow> 'b js) \<Rightarrow> 'b js" where
  "js_bind m f s = (case m s of (Inl e, s') \<Rightarrow> (Inl e, s') | (Inr x, s') \<Rightarrow> f x s')"

definition try_catch :: "unit js \<Rightarrow> (error \<Rightarrow> unit js) \<Rightarrow> unit js" where
  "try_catch body handler s =
     (case body s of (Inl e, s') \<Rightarrow> handler e s' | (Inr x, s') \<Rightarrow> (Inr x, s'))"

text \<open>\<open>await getData(...)\<close>, resumed with the outcome of the request.\<close>

definition await :: "error + 'a \<Rightarrow> 'a js" where
  "await outcome = (case outcome of Inl e \<Rightarrow> js_throw e | Inr x \<Rightarrow> js_return x)"

definition emit :: "event \<Rightarrow> unit js" where
  "emit ev s = (Inr (), s\<lparr>trace := trace s @ [ev]\<rparr>)"

definition setTVL :: "string \<Rightarrow> unit js" where
  "setTVL v s = emit (Write TVL v) (s\<lparr>tvl := v\<rparr>)"

definition setL2PercentChange :: "string \<Rightarrow> unit js" where
  "setL2PercentChange v s = emit (Write PercentChangeL2 v) (s\<lparr>percentChangeL2 := v\<rparr>)"

definition setAverageFee :: "string \<Rightarrow> unit js" where
  "setAverageFee v s = emit (Write AverageFee v) (s\<lparr>averageFee := v\<rparr>)"

definition console_error :: "error \<Rightarrow> unit js" where
  "console_error e = emit (ConsoleError e)"

text \<open>\<open>xs[i]\<close> on an array: \<open>undefined\<close> (\<open>None\<close>) outside \<open>0 \<le> i < length\<close>.\<close>

definition js_index :: "'a list \<Rightarrow> int \<Rightarrow> 'a option" where
  "js_index xs i = (if 0 \<le> i \<and> i < int (length xs) then Some (xs ! nat i) else None)"

definition read_dailyData :: "point list \<Rightarrow> int \<Rightarrow> point option js" where
  "read_dailyData dailyData i = js_bind (emit (Read i)) (\<lambda>_. js_return (js_index dailyData i))"

text \<open>\<open>p[1]\<close>: the second component of a point, a TypeError on \<open>undefined\<close>.\<close>

definition elem1 :: "point option \<Rightarrow> jsnum js" where
  "elem1 p = (case p of None \<Rightarrow> js_throw TypeError | Some (t, a, b) \<Rightarrow> js_return a)"

definition new_NumberFormat :: "env \<Rightarrow> string \<Rightarrow> NumberFormatOptions \<Rightarrow> (jsnum \<Rightarrow> string) js" where
  "new_NumberFormat rt locale opts =
     (case NumberFormat rt locale opts of Inl e \<Rightarrow> js_throw e | Inr format \<Rightarrow> js_return format)"

definition compact_usd :: NumberFormatOptions where
  "compact_usd =
     \<lparr>style = ''currency'', currency = ''USD'', notation' = ''compact'',
      minimumSignificantDigits = 2, maximumSignificantDigits = 3\<rparr>"

definition error_text :: string where
  "error_text = ''Error, please refresh.''"

section \<open>fetchL2Beat\<close>

text \<open>
  The body of the \<open>try\<close> block, from the point where \<open>await getData\<close> resumes with
  \<open>outcome\<close>; \<open>localeForStatsBoxNumbers\<close> is the locale the enclosing effect captured.
  JavaScript evaluates the constructor before the argument of \<open>format\<close>, and the
  operands of the percentage from left to right.
\<close>

definition percentage_of :: "jsnum \<Rightarrow> jsnum \<Rightarrow> jsnum \<Rightarrow> jsnum" where
  "percentage_of a b c = js_mul (js_div (js_sub a b) c) (Fin 100)"

definition percent_text :: "env \<Rightarrow> jsnum \<Rightarrow> string" where
  "percent_text rt percentage =
     (if js_gt percentage (Fin 0)
      then ''+'' @ toFixed (NumberToString rt) percentage 2 @ ''%''
      else toFixed (NumberToString rt) percentage 2 @ ''%'')"

definition fetchL2Beat_try :: "env \<Rightarrow> string \<Rightarrow> error + L2DataResponse \<Rightarrow> unit js" where
  "fetchL2Beat_try rt localeForStatsBoxNumbers outcome =
     js_bind (await outcome) (\<lambda>l2BeatData.
       let dailyData = data (daily (layers2s l2BeatData));
           len = int (length dailyData)
       in js_bind (new_NumberFormat rt localeForStatsBoxNumbers compact_usd) (\<lambda>format.
          js_bind (read_dailyData dailyData (len - 1)) (\<lambda>p.
          js_bind (elem1 p) (\<lambda>v.
          js_bind (setTVL (format v)) (\<lambda>_.
          js_bind (read_dailyData dailyData (len - 1)) (\<lambda>pa.
          js_bind (elem1 pa) (\<lambda>a.
          js_bind (read_dailyData dailyData (len - 31)) (\<lambda>pb.
          js_bind (elem1 pb) (\<lambda>b.
          js_bind (read_dailyData dailyData (len - 31)) (\<lambda>pc.
          js_bind (elem1 pc) (\<lambda>c.
          setL2PercentChange (percent_text rt (percentage_of a b c)))))))))))))"

definition fetchL2Beat_catch :: "error \<Rightarrow> unit js" where
  "fetchL2Beat_catch e =
     js_bind (console_error e) (\<lambda>_.
     js_bind (setTVL error_text) (\<lambda>_.
     setL2PercentChange error_text))"

definition fetchL2Beat :: "env \<Rightarrow> string \<Rightarrow> error + L2DataResponse \<Rightarrow> unit js" where
  "fetchL2Beat rt localeForStatsBoxNumbers outcome =
     try_catch (fetchL2Beat_try rt localeForStatsBoxNumbers outcome) fetchL2Beat_catch"

section \<open>fetchCryptoStats\<close>

definition feeData_of :: "FeeDataResponse \<Rightarrow> FeeEntry list" where
  "feeData_of feeDataResponse = filter (\<lambda>l2. entry_id l2 \<noteq> ''hermez'') (fee_data feeDataResponse)"

text \<open>\<open>reduce\<close> with an initial value folds from the left.\<close>

definition feeAverage_of :: "FeeEntry list \<Rightarrow> jsnum" where
  "feeAverage_of feeData =
     js_div (foldl (\<lambda>acc curr. js_add acc (feeTransferEth (results curr))) (Fin 0) feeData)
            (js_of_nat (length feeData))"

definition fetchCryptoStats_try :: "env \<Rightarrow> string \<Rightarrow> error + FeeDataResponse \<Rightarrow> unit js" where
  "fetchCryptoStats_try rt localeForStatsBoxNumbers outcome =
     js_bind (await outcome) (\<lambda>feeDataResponse.
       let feeData = feeData_of feeDataResponse;
           feeAverage = feeAverage_of feeData
       in js_bind (new_NumberFormat rt localeForStatsBoxNumbers compact_usd) (\<lambda>format.
          setAverageFee (format feeAverage)))"

definition fetchCryptoStats_catch :: "error \<Rightarrow> unit js" where
  "fetchCryptoStats_catch e =
     js_bind (setAverageFee error_text) (\<lambda>_. console_error e)"

definition fetchCryptoStats :: "env \<Rightarrow> string \<Rightarrow> error + FeeDataResponse \<Rightarrow> unit js" where
  "fetchCryptoStats rt localeForStatsBoxNumbers outcome =
     try_catch (fetchCryptoStats_try rt localeForStatsBoxNumbers outcome) fetchCryptoStats_catch"

section \<open>The effect and the event loop\<close>

text \<open>
  \<open>useEffect(..., [intl.locale])\<close> runs after the first render and after a render
  whose locale differs from the one of the render before. It calls both functions;
  each runs up to its \<open>await\<close> and stays in flight with the locale it captured. The
  effect returns no cleanup. A request in flight settles later, in any order, and its
  function then runs to its end on the state of that moment.
\<close>

datatype request = L2BeatRequest string | CryptoStatsRequest string

datatype settlement = L2BeatOutcome "error + L2DataResponse" | CryptoStatsOutcome "error + FeeDataResponse"

record page =
  ui :: state
  inflight :: "request list"
  deps :: "string option"

datatype action = Render string | Settle nat settlement

definition Layer2Page_mount :: page where
  "Layer2Page_mount = \<lparr>ui = initial_state, inflight = [], deps = None\<rparr>"

definition useEffect :: "env \<Rightarrow> string \<Rightarrow> page \<Rightarrow> page" where
  "useEffect rt locale p =
     (let localeForStatsBoxNumbers = getLocaleForNumberFormat rt locale
      in p\<lparr>inflight := inflight p @ [L2BeatRequest localeForStatsBoxNumbers,
                                       CryptoStatsRequest localeForStatsBoxNumbers]\<rparr>)"

definition remove_nth :: "nat \<Rightarrow> 'a list \<Rightarrow> 'a list" where
  "remove_nth k xs = take k xs @ drop (Suc k) xs"

fun step :: "env \<Rightarrow> page \<Rightarrow> action \<Rightarrow> page" where
  "step rt p (Render locale) =
     (if deps p = Some locale then p else useEffect rt locale (p\<lparr>deps := Some locale\<rparr>))"
| "step rt p (Settle k outcome) =
     (if k < length (inflight p)
      then (case (inflight p ! k, outcome) of
              (L2BeatRequest l, L2BeatOutcome r) \<Rightarrow>
                p\<lparr>ui := snd (fetchL2Beat rt l r (ui p)), inflight := remove_nth k (inflight p)\<rparr>
            | (CryptoStatsRequest l, CryptoStatsOutcome r) \<Rightarrow>
                p\<lparr>ui := snd (fetchCryptoStats rt l r (ui p)), inflight := remove_nth k (inflight p)\<rparr>
            | _ \<Rightarrow> p)
      else p)"

definition run :: "env \<Rightarrow> page \<Rightarrow> action list \<Rightarrow> page" where
  "run rt p acts = foldl (step rt) p acts"

section \<open>The two product sections\<close>

text \<open>
  \<open>Array.prototype.indexOf\<close>: the first index holding the element, \<open>-1\<close> when there is
  none. A number is truthy unless it is zero (or NaN, which \<open>indexOf\<close> never returns).
\<close>

fun indexOf_from :: "'a list \<Rightarrow> 'a \<Rightarrow> int \<Rightarrow> int" where
  "indexOf_from [] x k = - 1"
| "indexOf_from (y # ys) x k = (if y = x then k else indexOf_from ys x (k + 1))"

definition indexOf :: "'a list \<Rightarrow> 'a \<Rightarrow> int" where
  "indexOf xs x = indexOf_from xs x 0"

definition truthy :: "int \<Rightarrow> bool" where
  "truthy n = (n \<noteq> 0)"

record layer2 =
  name :: string
  purpose :: "string list"

record layer2Data =
  optimistic :: "layer2 list"
  zk :: "layer2 list"

definition layer2DataCombined :: "layer2Data \<Rightarrow> layer2 list" where
  "layer2DataCombined d = optimistic d @ zk d"

definition generalized_cards :: "layer2 list \<Rightarrow> layer2 list" where
  "generalized_cards cards = filter (\<lambda>l2. \<not> truthy (indexOf (purpose l2) ''universal'')) cards"

definition application_specific_cards :: "layer2 list \<Rightarrow> layer2 list" where
  "application_specific_cards cards = filter (\<lambda>l2. truthy (indexOf (purpose l2) ''universal'')) cards"

text \<open>The values written to one cell, in the order of the calls of its setter.\<close>

fun writes_to :: "cell \<Rightarrow> event list \<Rightarrow> string list" where
  "writes_to c [] = []"
| "writes_to c (Write c' v # evs) = (if c' = c then v # writes_to c evs else writes_to c evs)"
| "writes_to c (_ # evs) = writes_to c evs"

text \<open>The events a run adds to the trace of the state it starts from.\<close>

definition new_events :: "state \<Rightarrow> state \<Rightarrow> event list" where
  "new_events s s' = drop (length (trace s)) (trace s')"

text \<open>
  A number rendered with exactly two decimal places, as the specification words the
  percent change: a minus sign below zero, the digits of the integer part, a point and
  two digits, of the magnitude rounded to hundredths (a half rounds up).
\<close>

definition two_decimals :: "rat \<Rightarrow> string" where
  "two_decimals q =
     (let n = nat \<lfloor>\<bar>q\<bar> * 100 + 1 / 2\<rfloor>
      in (if q < 0 then ''-'' else '''') @ dec_digits (n div 100) @ ''.'' @
         [digit_char (n div 10 mod 10), digit_char (n mod 10)])"

text \<open>
  No addition of a sum rounds: starting from \<open>a\<close> and adding the fees \<open>qs\<close> from the
  left, every partial sum is a double as it is.
\<close>

fun no_rounding :: "rat \<Rightarrow> rat list \<Rightarrow> bool" where
  "no_rounding a [] = True"
| "no_rounding a (q # qs) = (round_double (a + q) = Fin (a + q) \<and> no_rounding (a + q) qs)"

section \<open>Inputs for the examples\<close>

text \<open>
  A runtime for the examples: the locale is taken as it is, the constructor accepts
  every locale, and \<open>format\<close> gives the locale, a dollar sign and two decimals (the
  examples do not depend on what a real \<open>Intl.NumberFormat\<close> prints).
\<close>

definition sample_runtime :: env where
  "sample_runtime =
     \<lparr>getLocaleForNumberFormat = (\<lambda>locale. locale),
      NumberFormat = (\<lambda>locale opts. Inr (\<lambda>x. locale @ '' $'' @ toFixed (\<lambda>q. ''1e+21'') x 2)),
      NumberToString = (\<lambda>q. ''1e+21'')\<rparr>"

definition l2beat_response :: "point list \<Rightarrow> L2DataResponse" where
  "l2beat_response d =
     \<lparr>layers2s = \<lparr>daily = \<lparr>data = d\<rparr>\<rparr>,
      combined = \<lparr>daily = \<lparr>data = []\<rparr>\<rparr>,
      bridges = \<lparr>daily = \<lparr>data = []\<rparr>\<rparr>\<rparr>"

definition fee_entry :: "string \<Rightarrow> jsnum \<Rightarrow> FeeEntry" where
  "fee_entry i f = \<lparr>entry_id = i, results = \<lparr>feeTransferEth = f\<rparr>\<rparr>"

section \<open>Evaluation of numbers and digits\<close>

declare dec_digits.simps [simp del]

lemma dec_digits_small: "n < 10 \<Longrightarrow> dec_digits n = [digit_char n]"
  by (simp add: dec_digits.simps)

lemma dec_digits_large: "\<not> n < 10 \<Longrightarrow> dec_digits n = dec_digits (n div 10) @ [digit_char (n mod 10)]"
  by (subst dec_digits.simps) simp

lemma floor_rat_numeral_div: "\<lfloor>(numeral a :: rat) / numeral b\<rfloor> = numeral a div numeral b"
  using floor_divide_of_int_eq [of "numeral a" "numeral b", where ?'a = rat] by simp

lemma floor_rat_one_div: "\<lfloor>(1 :: rat) / numeral b\<rfloor> = 1 div numeral b"
  using floor_divide_of_int_eq [of 1 "numeral b", where ?'a = rat] by simp

lemma ceiling_rat_numeral_div: "\<lceil>(numeral a :: rat) / numeral b\<rceil> = - ((- numeral a) div numeral b)"
  using floor_divide_of_int_eq [of "- numeral a" "numeral b", where ?'a = rat]
  by (simp add: ceiling_def)

lemma ceiling_rat_one_div: "\<lceil>(1 :: rat) / numeral b\<rceil> = - ((- 1) div numeral b)"
  using floor_divide_of_int_eq [of "- 1" "numeral b", where ?'a = rat]
  by (simp add: ceiling_def)

lemma bitlen_pos: "0 < x \<Longrightarrow> bitlen x = bitlen (x div 2) + 1"
  by (subst compute_bitlen) simp

lemma bitlen_nonpos: "x \<le> 0 \<Longrightarrow> bitlen x = 0"
  by (subst compute_bitlen) simp

lemmas num_eval = floor_rat_numeral_div floor_rat_one_div ceiling_rat_numeral_div
  ceiling_rat_one_div bitlen_pos bitlen_nonpos round_double_def round_mag_def floorlog2_def
  round_half_even_def pow2_def Let_def js_sub_def js_mul_def js_div_def js_of_nat_def
  signed_inf_def signed_zero_def

lemmas str_eval = toFixed_def dec_digits_small dec_digits_large digit_char_def Let_def
  floor_rat_numeral_div floor_rat_one_div

section \<open>What the two functions do, case by case\<close>

lemmas js_defs = js_return_def js_throw_def js_bind_def try_catch_def await_def emit_def
  setTVL_def setL2PercentChange_def setAverageFee_def console_error_def read_dailyData_def
  elem1_def new_NumberFormat_def

lemma fetchL2Beat_try_rejected:
  "fetchL2Beat_try rt l (Inl e) s = (Inl e, s)"
  by (simp add: fetchL2Beat_try_def js_defs)

lemma fetchL2Beat_try_no_format:
  assumes "NumberFormat rt l compact_usd = Inl e"
  shows "fetchL2Beat_try rt l (Inr r) s = (Inl e, s)"
  using assms by (simp add: fetchL2Beat_try_def js_defs Let_def)

lemma fetchL2Beat_try_empty:
  assumes "NumberFormat rt l compact_usd = Inr format" and "data (daily (layers2s r)) = []"
  shows "fetchL2Beat_try rt l (Inr r) s = (Inl TypeError, s\<lparr>trace := trace s @ [Read (- 1)]\<rparr>)"
  using assms by (simp add: fetchL2Beat_try_def js_defs Let_def js_index_def)

lemma fetchL2Beat_try_short:
  assumes "NumberFormat rt l compact_usd = Inr format"
    and "data (daily (layers2s r)) = d" and "0 < length d" and "length d < 31"
  shows "fetchL2Beat_try rt l (Inr r) s =
           (Inl TypeError,
            s\<lparr>tvl := format (fst (snd (d ! (length d - 1)))),
              trace := trace s @ [Read (int (length d) - 1),
                                  Write TVL (format (fst (snd (d ! (length d - 1))))),
                                  Read (int (length d) - 1),
                                  Read (int (length d) - 31)]\<rparr>)"
proof -
  have a: "js_index d (int (length d) - 1) = Some (d ! (length d - 1))"
    using assms(3) by (simp add: js_index_def nat_diff_distrib')
  have b: "js_index d (int (length d) - 31) = None"
    using assms(4) by (simp add: js_index_def)
  show ?thesis
    using assms(1,2) a b
    by (simp add: fetchL2Beat_try_def js_defs Let_def split: prod.splits)
qed

lemma fetchL2Beat_try_long:
  assumes "NumberFormat rt l compact_usd = Inr format"
    and "data (daily (layers2s r)) = d" and "31 \<le> length d"
  shows "fetchL2Beat_try rt l (Inr r) s =
           (Inr (),
            s\<lparr>tvl := format (fst (snd (d ! (length d - 1)))),
              percentChangeL2 :=
                percent_text rt (percentage_of (fst (snd (d ! (length d - 1))))
                                               (fst (snd (d ! (length d - 31))))
                                               (fst (snd (d ! (length d - 31))))),
              trace := trace s @ [Read (int (length d) - 1),
                                  Write TVL (format (fst (snd (d ! (length d - 1))))),
                                  Read (int (length d) - 1),
                                  Read (int (length d) - 31),
                                  Read (int (length d) - 31),
                                  Write PercentChangeL2
                                    (percent_text rt (percentage_of (fst (snd (d ! (length d - 1))))
                                               (fst (snd (d ! (length d - 31))))
                                               (fst (snd (d ! (length d - 31))))))]\<rparr>)"
proof -
  have a: "js_index d (int (length d) - 1) = Some (d ! (length d - 1))"
    using assms(3) by (auto simp: js_index_def nat_diff_distrib')
  have b: "js_index d (int (length d) - 31) = Some (d ! (length d - 31))"
    using assms(3) by (auto simp: js_index_def nat_diff_distrib')
  show ?thesis
    using assms(1,2) a b
    by (simp add: fetchL2Beat_try_def js_defs Let_def split: prod.splits)
qed


lemma fetchCryptoStats_try_rejected:
  "fetchCryptoStats_try rt l (Inl e) s = (Inl e, s)"
  by (simp add: fetchCryptoStats_try_def js_defs)

lemma fetchCryptoStats_try_no_format:
  assumes "NumberFormat rt l compact_usd = Inl e"
  shows "fetchCryptoStats_try rt l (Inr r) s = (Inl e, s)"
  using assms by (simp add: fetchCryptoStats_try_def js_defs Let_def)

lemma fetchCryptoStats_try_ok:
  assumes "NumberFormat rt l compact_usd = Inr format"
  shows "fetchCryptoStats_try rt l (Inr r) s =
           (Inr (), s\<lparr>averageFee := format (feeAverage_of (feeData_of r)),
                       trace := trace s @ [Write AverageFee (format (feeAverage_of (feeData_of r)))]\<rparr>)"
  using assms by (simp add: fetchCryptoStats_try_def js_defs Let_def)

lemma fetchL2Beat_catch_eq:
  "fetchL2Beat_catch e s =
     (Inr (), s\<lparr>tvl := error_text, percentChangeL2 := error_text,
                 trace := trace s @ [ConsoleError e, Write TVL error_text,
                                     Write PercentChangeL2 error_text]\<rparr>)"
  by (simp add: fetchL2Beat_catch_def js_defs)

lemma fetchCryptoStats_catch_eq:
  "fetchCryptoStats_catch e s =
     (Inr (), s\<lparr>averageFee := error_text,
                 trace := trace s @ [Write AverageFee error_text, ConsoleError e]\<rparr>)"
  by (simp add: fetchCryptoStats_catch_def js_defs)

lemma fetchL2Beat_failure:
  assumes "fetchL2Beat_try rt l outcome s = (Inl e, s')"
  shows "fetchL2Beat rt l outcome s = fetchL2Beat_catch e s'"
  using assms by (simp add: fetchL2Beat_def try_catch_def)

lemma fetchL2Beat_success:
  assumes "fetchL2Beat_try rt l outcome s = (Inr u, s')"
  shows "fetchL2Beat rt l outcome s = (Inr u, s')"
  using assms by (simp add: fetchL2Beat_def try_catch_def)

lemma fetchCryptoStats_failure:
  assumes "fetchCryptoStats_try rt l outcome s = (Inl e, s')"
  shows "fetchCryptoStats rt l outcome s = fetchCryptoStats_catch e s'"
  using assms by (simp add: fetchCryptoStats_def try_catch_def)

lemma fetchCryptoStats_success:
  assumes "fetchCryptoStats_try rt l outcome s = (Inr u, s')"
  shows "fetchCryptoStats rt l outcome s = (Inr u, s')"
  using assms by (simp add: fetchCryptoStats_def try_catch_def)

text \<open>Every run of the try block falls under one of five cases.\<close>

lemma fetchL2Beat_try_cases:
  obtains (rejected) e where "outcome = Inl e"
  | (no_format) r e where "outcome = Inr r" "NumberFormat rt l compact_usd = Inl e"
  | (empty) r format where "outcome = Inr r" "NumberFormat rt l compact_usd = Inr format"
      "data (daily (layers2s r)) = []"
  | (short) r format where "outcome = Inr r" "NumberFormat rt l compact_usd = Inr format"
      "0 < length (data (daily (layers2s r)))" "length (data (daily (layers2s r))) < 31"
  | (long) r format where "outcome = Inr r" "NumberFormat rt l compact_usd = Inr format"
      "31 \<le> length (data (daily (layers2s r)))"
proof (cases outcome)
  case (Inl e)
  then show ?thesis using rejected by blast
next
  case (Inr r)
  show ?thesis
  proof (cases "NumberFormat rt l compact_usd")
    case (Inl e)
    then show ?thesis using no_format Inr by blast
  next
    case fmt: (Inr format)
    consider "data (daily (layers2s r)) = []"
      | "0 < length (data (daily (layers2s r)))" "length (data (daily (layers2s r))) < 31"
      | "31 \<le> length (data (daily (layers2s r)))"
      by fastforce
    then show ?thesis
      using empty short long Inr fmt by cases blast+
  qed
qed

lemma writes_to_append: "writes_to c (xs @ ys) = writes_to c xs @ writes_to c ys"
  by (induction c xs rule: writes_to.induct) simp_all

lemma fetchL2Beat_frame:
  "averageFee (snd (fetchL2Beat rt l outcome s)) = averageFee s \<and>
   writes_to AverageFee (trace (snd (fetchL2Beat rt l outcome s))) = writes_to AverageFee (trace s)"
proof (cases rule: fetchL2Beat_try_cases [where outcome = outcome and rt = rt and l = l])
  case (rejected e)
  then show ?thesis
    by (simp add: fetchL2Beat_failure [OF fetchL2Beat_try_rejected] fetchL2Beat_catch_eq
        writes_to_append)
next
  case (no_format r e)
  then show ?thesis
    by (simp add: fetchL2Beat_failure [OF fetchL2Beat_try_no_format] fetchL2Beat_catch_eq
        writes_to_append)
next
  case (empty r format)
  then show ?thesis
    by (simp add: fetchL2Beat_failure [OF fetchL2Beat_try_empty] fetchL2Beat_catch_eq
        writes_to_append)
next
  case (short r format)
  then show ?thesis
    by (simp add: fetchL2Beat_failure [OF fetchL2Beat_try_short [OF _ refl]] fetchL2Beat_catch_eq
        writes_to_append)
next
  case (long r format)
  then show ?thesis
    by (simp add: fetchL2Beat_success [OF fetchL2Beat_try_long [OF _ refl]] writes_to_append)
qed

lemma fetchCryptoStats_try_cases:
  obtains (rejected) e where "outcome = Inl e"
  | (no_format) r e where "outcome = Inr r" "NumberFormat rt l compact_usd = Inl e"
  | (ok) r format where "outcome = Inr r" "NumberFormat rt l compact_usd = Inr format"
  by (cases outcome; cases "NumberFormat rt l compact_usd") auto

lemma fetchCryptoStats_frame:
  "tvl (snd (fetchCryptoStats rt l outcome s)) = tvl s \<and>
   percentChangeL2 (snd (fetchCryptoStats rt l outcome s)) = percentChangeL2 s \<and>
   writes_to TVL (trace (snd (fetchCryptoStats rt l outcome s))) = writes_to TVL (trace s) \<and>
   writes_to PercentChangeL2 (trace (snd (fetchCryptoStats rt l outcome s))) =
     writes_to PercentChangeL2 (trace s)"
proof (cases rule: fetchCryptoStats_try_cases [where outcome = outcome and rt = rt and l = l])
  case (rejected e)
  then show ?thesis
    by (simp add: fetchCryptoStats_failure [OF fetchCryptoStats_try_rejected]
        fetchCryptoStats_catch_eq writes_to_append)
next
  case (no_format r e)
  then show ?thesis
    by (simp add: fetchCryptoStats_failure [OF fetchCryptoStats_try_no_format]
        fetchCryptoStats_catch_eq writes_to_append)
next
  case (ok r format)
  then show ?thesis
    by (simp add: fetchCryptoStats_success [OF fetchCryptoStats_try_ok] writes_to_append)
qed

lemma indexOf_from_range: "indexOf_from xs x k = - 1 \<or> k \<le> indexOf_from xs x k"
proof (induction xs arbitrary: k)
  case Nil
  show ?case by simp
next
  case (Cons y ys)
  show ?case using Cons.IH [of "k + 1"] by auto
qed

lemma indexOf_zero_iff: "indexOf xs x = 0 \<longleftrightarrow> take 1 xs = [x]"
proof (cases xs)
  case Nil
  then show ?thesis by (simp add: indexOf_def)
next
  case (Cons y ys)
  then show ?thesis using indexOf_from_range [of ys x 1] by (auto simp: indexOf_def)
qed


section \<open>Frame of the two functions\<close>

text \<open>
  Claim C9. Whatever the request gives and whatever the state, \<open>fetchCryptoStats\<close> leaves
  the cells \<open>tvl\<close> and \<open>percentChangeL2\<close> as they were and calls neither of their setters,
  and \<open>fetchL2Beat\<close> leaves \<open>averageFee\<close> as it was and never calls \<open>setAverageFee\<close>.
\<close>

theorem frame_of_the_two_fetches:
  "tvl (snd (fetchCryptoStats rt l fee_outcome s)) = tvl s \<and>
   percentChangeL2 (snd (fetchCryptoStats rt l fee_outcome s)) = percentChangeL2 s \<and>
   writes_to TVL (trace (snd (fetchCryptoStats rt l fee_outcome s))) = writes_to TVL (trace s) \<and>
   writes_to PercentChangeL2 (trace (snd (fetchCryptoStats rt l fee_outcome s))) =
     writes_to PercentChangeL2 (trace s) \<and>
   averageFee (snd (fetchL2Beat rt l l2_outcome s)) = averageFee s \<and>
   writes_to AverageFee (trace (snd (fetchL2Beat rt l l2_outcome s))) =
     writes_to AverageFee (trace s)"
  using fetchCryptoStats_frame [of rt l fee_outcome s] fetchL2Beat_frame [of rt l l2_outcome s]
  by simp


section \<open>Partition of the product cards\<close>

lemma cards_partition:
  "mset (generalized_cards cards) + mset (application_specific_cards cards) = mset cards"
  unfolding generalized_cards_def application_specific_cards_def
  by (induction cards) simp_all

text \<open>
  Claim C10. The filters of the two product sections are complementary: together the
  two sections hold every entry of the combined list, the optimistic entries followed
  by the zk ones, exactly as often as the list does, and no entry is in both. An entry
  is in the first section exactly when \<open>universal\<close> is the first element of its
  purposes; an entry that lists \<open>universal\<close> in second place is in the second section.
\<close>

theorem product_sections_partition:
  "mset (generalized_cards (layer2DataCombined d)) +
     mset (application_specific_cards (layer2DataCombined d)) = mset (optimistic d) + mset (zk d) \<and>
   set (generalized_cards (layer2DataCombined d)) \<inter>
     set (application_specific_cards (layer2DataCombined d)) = {} \<and>
   generalized_cards (layer2DataCombined d) =
     filter (\<lambda>l2. take 1 (purpose l2) = [''universal'']) (optimistic d @ zk d) \<and>
   application_specific_cards (layer2DataCombined d) =
     filter (\<lambda>l2. take 1 (purpose l2) \<noteq> [''universal'']) (optimistic d @ zk d) \<and>
   generalized_cards [\<lparr>name = ''a'', purpose = [''payments'', ''universal'']\<rparr>] = [] \<and>
   application_specific_cards [\<lparr>name = ''a'', purpose = [''payments'', ''universal'']\<rparr>] =
     [\<lparr>name = ''a'', purpose = [''payments'', ''universal'']\<rparr>]"
proof -
  have "mset (generalized_cards (layer2DataCombined d)) +
     mset (application_specific_cards (layer2DataCombined d)) = mset (optimistic d) + mset (zk d)"
    by (simp add: cards_partition layer2DataCombined_def)
  moreover have "set (generalized_cards (layer2DataCombined d)) \<inter>
     set (application_specific_cards (layer2DataCombined d)) = {}"
    by (auto simp: generalized_cards_def application_specific_cards_def)
  moreover have "generalized_cards (layer2DataCombined d) =
     filter (\<lambda>l2. take 1 (purpose l2) = [''universal'']) (optimistic d @ zk d)"
    by (simp add: generalized_cards_def truthy_def indexOf_zero_iff layer2DataCombined_def)
  moreover have "application_specific_cards (layer2DataCombined d) =
     filter (\<lambda>l2. take 1 (purpose l2) \<noteq> [''universal'']) (optimistic d @ zk d)"
    by (simp add: application_specific_cards_def truthy_def indexOf_zero_iff layer2DataCombined_def)
  moreover have "generalized_cards [\<lparr>name = ''a'', purpose = [''payments'', ''universal'']\<rparr>] = []"
    by (simp add: generalized_cards_def truthy_def indexOf_def)
  moreover have "application_specific_cards [\<lparr>name = ''a'', purpose = [''payments'', ''universal'']\<rparr>] =
     [\<lparr>name = ''a'', purpose = [''payments'', ''universal'']\<rparr>]"
    by (simp add: application_specific_cards_def truthy_def indexOf_def)
  ultimately show ?thesis by blast
qed

lemma new_events_append [simp]: "new_events s (s'\<lparr>trace := trace s @ evs\<rparr>) = evs"
  by (simp add: new_events_def)

lemmas fixture_defs = sample_runtime_def l2beat_response_def fee_entry_def initial_state_def
  compact_usd_def error_text_def

lemma fetchL2Beat_rejected:
  "fetchL2Beat rt l (Inl e) s =
     (Inr (), s\<lparr>tvl := error_text, percentChangeL2 := error_text,
                 trace := trace s @ [ConsoleError e, Write TVL error_text,
                                     Write PercentChangeL2 error_text]\<rparr>)"
  by (simp add: fetchL2Beat_failure [OF fetchL2Beat_try_rejected] fetchL2Beat_catch_eq)

lemma fetchL2Beat_no_format:
  assumes "NumberFormat rt l compact_usd = Inl e"
  shows "fetchL2Beat rt l (Inr r) s =
     (Inr (), s\<lparr>tvl := error_text, percentChangeL2 := error_text,
                 trace := trace s @ [ConsoleError e, Write TVL error_text,
                                     Write PercentChangeL2 error_text]\<rparr>)"
  by (simp add: fetchL2Beat_failure [OF fetchL2Beat_try_no_format [OF assms]] fetchL2Beat_catch_eq)

lemma fetchL2Beat_empty:
  assumes "NumberFormat rt l compact_usd = Inr format" and "data (daily (layers2s r)) = []"
  shows "fetchL2Beat rt l (Inr r) s =
     (Inr (), s\<lparr>tvl := error_text, percentChangeL2 := error_text,
                 trace := trace s @ [Read (- 1), ConsoleError TypeError, Write TVL error_text,
                                     Write PercentChangeL2 error_text]\<rparr>)"
  by (simp add: fetchL2Beat_failure [OF fetchL2Beat_try_empty [OF assms]] fetchL2Beat_catch_eq)

lemma fetchL2Beat_short:
  assumes "NumberFormat rt l compact_usd = Inr format"
    and "data (daily (layers2s r)) = d" and "0 < length d" and "length d < 31"
  shows "fetchL2Beat rt l (Inr r) s =
     (Inr (), s\<lparr>tvl := error_text, percentChangeL2 := error_text,
                 trace := trace s @ [Read (int (length d) - 1),
                                     Write TVL (format (fst (snd (d ! (length d - 1))))),
                                     Read (int (length d) - 1),
                                     Read (int (length d) - 31),
                                     ConsoleError TypeError, Write TVL error_text,
                                     Write PercentChangeL2 error_text]\<rparr>)"
  by (simp add: fetchL2Beat_failure [OF fetchL2Beat_try_short [OF assms]] fetchL2Beat_catch_eq)

lemmas fetchL2Beat_long = fetchL2Beat_success [OF fetchL2Beat_try_long]

lemma fetchCryptoStats_rejected:
  "fetchCryptoStats rt l (Inl e) s =
     (Inr (), s\<lparr>averageFee := error_text,
                 trace := trace s @ [Write AverageFee error_text, ConsoleError e]\<rparr>)"
  by (simp add: fetchCryptoStats_failure [OF fetchCryptoStats_try_rejected] fetchCryptoStats_catch_eq)

lemma fetchCryptoStats_no_format:
  assumes "NumberFormat rt l compact_usd = Inl e"
  shows "fetchCryptoStats rt l (Inr r) s =
     (Inr (), s\<lparr>averageFee := error_text,
                 trace := trace s @ [Write AverageFee error_text, ConsoleError e]\<rparr>)"
  by (simp add: fetchCryptoStats_failure [OF fetchCryptoStats_try_no_format [OF assms]]
      fetchCryptoStats_catch_eq)

lemmas fetchCryptoStats_ok = fetchCryptoStats_success [OF fetchCryptoStats_try_ok]


section \<open>A series too short for the lookback\<close>

text \<open>
  Claim C1, as amended. With fewer than 31 points the code makes no length check and
  throws no \<open>DataInsufficient\<close>: it reads the index \<open>length - 31\<close> (the index \<open>-1\<close> when
  the series is empty), which is out of range and gives \<open>undefined\<close>, and the read of
  its element 1 throws a TypeError. The \<open>catch\<close> block logs the TypeError and sets both
  cells to the error text; the function itself returns normally. (The formatter is
  taken to be constructible; otherwise its RangeError comes first.)
\<close>

theorem short_series_type_error:
  assumes "NumberFormat rt l compact_usd = Inr format"
    and "data (daily (layers2s r)) = d" and "length d < 31"
  shows "fst (fetchL2Beat_try rt l (Inr r) s) = Inl TypeError \<and>
         last (new_events s (snd (fetchL2Beat_try rt l (Inr r) s))) =
           Read (if d = [] then - 1 else int (length d) - 31) \<and>
         js_index d (if d = [] then - 1 else int (length d) - 31) = None \<and>
         fst (fetchL2Beat rt l (Inr r) s) = Inr () \<and>
         tvl (snd (fetchL2Beat rt l (Inr r) s)) = error_text \<and>
         percentChangeL2 (snd (fetchL2Beat rt l (Inr r) s)) = error_text \<and>
         ConsoleError TypeError \<in> set (new_events s (snd (fetchL2Beat rt l (Inr r) s)))"
proof (cases "d = []")
  case True
  then show ?thesis
    using assms
    by (simp add: fetchL2Beat_try_empty [OF assms(1)] fetchL2Beat_empty [OF assms(1)] js_index_def)
next
  case False
  then have pos: "0 < length d" by simp
  show ?thesis
    using False assms(3)
    by (simp add: fetchL2Beat_try_short [OF assms(1,2) pos assms(3)]
        fetchL2Beat_short [OF assms(1,2) pos assms(3)] js_index_def)
qed

theorem short_series_type_error_witness:
  "fst (fetchL2Beat_try sample_runtime ''en'' (Inr (l2beat_response [(''d'', Fin 5, Fin 0)])) initial_state)
     = Inl TypeError \<and>
   last (new_events initial_state
     (snd (fetchL2Beat_try sample_runtime ''en'' (Inr (l2beat_response [(''d'', Fin 5, Fin 0)])) initial_state)))
     = Read (- 30) \<and>
   js_index [(''d'', Fin 5, Fin 0)] (- 30) = None \<and>
   tvl (snd (fetchL2Beat sample_runtime ''en'' (Inr (l2beat_response [(''d'', Fin 5, Fin 0)])) initial_state))
     = ''Error, please refresh.''"
  using short_series_type_error [of sample_runtime "''en''"
      "\<lambda>x. ''en'' @ '' $'' @ toFixed (\<lambda>q. ''1e+21'') x 2"
      "l2beat_response [(''d'', Fin 5, Fin 0)]" "[(''d'', Fin 5, Fin 0)]" initial_state]
  by (simp add: fixture_defs)

text \<open>
  The claim as stated fails on a series of one point: the error is a TypeError, and
  the last read is at index \<open>-30\<close>.
\<close>

theorem short_series_counterexample:
  "fst (fetchL2Beat_try sample_runtime ''en'' (Inr (l2beat_response [(''d'', Fin 5, Fin 0)])) initial_state)
     = Inl TypeError \<and>
   trace (snd (fetchL2Beat_try sample_runtime ''en'' (Inr (l2beat_response [(''d'', Fin 5, Fin 0)])) initial_state))
     = [Read 0, Write TVL ''en $5.00'', Read 0, Read (- 30)]"
  by (simp add: fetchL2Beat_try_def js_defs Let_def js_index_def fixture_defs str_eval)

section \<open>An empty set of fees\<close>

text \<open>
  Claim C2, as amended. When no entry is left after the entries of the excluded id are
  dropped, the sum is 0 and the count is 0, and their quotient is NaN. No error is
  raised: the NaN goes to the formatter, and what the formatter prints for it is
  written to \<open>averageFee\<close> (the formatter taken to be constructible).
\<close>

theorem empty_fee_set_gives_NaN:
  assumes "feeData_of r = []" and "NumberFormat rt l compact_usd = Inr format"
  shows "feeAverage_of (feeData_of r) = NaN \<and>
         fst (fetchCryptoStats_try rt l (Inr r) s) = Inr () \<and>
         fetchCryptoStats rt l (Inr r) s =
           (Inr (), s\<lparr>averageFee := format NaN,
                       trace := trace s @ [Write AverageFee (format NaN)]\<rparr>)"
proof -
  have avg: "feeAverage_of (feeData_of r) = NaN"
    using assms(1) by (simp add: feeAverage_of_def js_of_nat_def round_double_def js_div_def)
  show ?thesis
    using avg by (simp add: fetchCryptoStats_try_ok [OF assms(2)] fetchCryptoStats_ok [OF assms(2)])
qed

theorem empty_fee_set_gives_NaN_witness:
  "feeData_of \<lparr>fee_data = [fee_entry ''hermez'' (Fin 100)]\<rparr> = [] \<and>
   feeAverage_of (feeData_of \<lparr>fee_data = [fee_entry ''hermez'' (Fin 100)]\<rparr>) = NaN \<and>
   averageFee (snd (fetchCryptoStats sample_runtime ''en''
      (Inr \<lparr>fee_data = [fee_entry ''hermez'' (Fin 100)]\<rparr>) initial_state)) = ''en $NaN''"
proof -
  have a: "feeData_of \<lparr>fee_data = [fee_entry ''hermez'' (Fin 100)]\<rparr> = []"
    by (simp add: feeData_of_def fee_entry_def)
  have b: "NumberFormat sample_runtime ''en'' compact_usd =
             Inr (\<lambda>x. ''en'' @ '' $'' @ toFixed (\<lambda>q. ''1e+21'') x 2)"
    by (simp add: sample_runtime_def)
  show ?thesis
    using a empty_fee_set_gives_NaN [OF a b, of initial_state]
    by (simp add: toFixed_def)
qed

text \<open>
  The claim as stated fails on a response whose only entry is the excluded one: the
  average is NaN and the \<open>try\<close> block ends without an error.
\<close>

theorem empty_fee_set_counterexample:
  "feeAverage_of (feeData_of \<lparr>fee_data = [fee_entry ''hermez'' (Fin 100)]\<rparr>) = NaN \<and>
   fetchCryptoStats_try sample_runtime ''en''
      (Inr \<lparr>fee_data = [fee_entry ''hermez'' (Fin 100)]\<rparr>) initial_state =
     (Inr (), initial_state\<lparr>averageFee := ''en $NaN'', trace := [Write AverageFee ''en $NaN'']\<rparr>)"
  by (simp add: fetchCryptoStats_try_def js_defs feeAverage_of_def feeData_of_def fixture_defs
      js_of_nat_def round_double_def js_div_def toFixed_def)


section \<open>Failures end in the error text\<close>





lemma nth_last: "d \<noteq> [] \<Longrightarrow> d ! (length d - Suc 0) = last d"
  by (simp add: last_conv_nth)


section \<open>The TVL output\<close>

text \<open>
  Claim C8, as amended. For a series that is not empty (the formatter constructible),
  \<open>fetchL2Beat\<close> first writes to \<open>tvl\<close> what the formatter, built with the compact USD
  options of 2 to 3 significant digits, prints for element 1 of the last point. From 31
  points on this is the value the cell ends with. With fewer than 31 points the
  percent change then throws, and the \<open>catch\<close> block replaces the value by the error
  text: the cell is written twice.
\<close>

theorem tvl_output:
  assumes "NumberFormat rt l compact_usd = Inr format"
    and "data (daily (layers2s r)) = d" and "d \<noteq> []"
  shows "hd (writes_to TVL (new_events s (snd (fetchL2Beat rt l (Inr r) s)))) =
           format (fst (snd (last d))) \<and>
         (31 \<le> length d \<longrightarrow>
            tvl (snd (fetchL2Beat rt l (Inr r) s)) = format (fst (snd (last d)))) \<and>
         (length d < 31 \<longrightarrow>
            tvl (snd (fetchL2Beat rt l (Inr r) s)) = error_text \<and>
            writes_to TVL (new_events s (snd (fetchL2Beat rt l (Inr r) s))) =
              [format (fst (snd (last d))), error_text]) \<and>
         compact_usd = \<lparr>style = ''currency'', currency = ''USD'', notation' = ''compact'',
                        minimumSignificantDigits = 2, maximumSignificantDigits = 3\<rparr>"
proof (cases "31 \<le> length d")
  case True
  then show ?thesis
    using assms(3)
    by (simp add: fetchL2Beat_long [OF assms(1,2) True] nth_last compact_usd_def)
next
  case False
  then have short: "length d < 31" by simp
  have pos: "0 < length d" using assms(3) by simp
  show ?thesis
    using assms(3) short
    by (simp add: fetchL2Beat_short [OF assms(1,2) pos short] nth_last compact_usd_def)
qed

theorem tvl_output_witness:
  "tvl (snd (fetchL2Beat sample_runtime ''en''
     (Inr (l2beat_response (replicate 30 (''d'', Fin 100, Fin 0) @ [(''d'', Fin 150, Fin 0)])))
     initial_state)) = ''en $150.00'' \<and>
   tvl (snd (fetchL2Beat sample_runtime ''en'' (Inr (l2beat_response [(''d'', Fin 5, Fin 0)]))
     initial_state)) = ''Error, please refresh.'' \<and>
   writes_to TVL (new_events initial_state
     (snd (fetchL2Beat sample_runtime ''en'' (Inr (l2beat_response [(''d'', Fin 5, Fin 0)]))
       initial_state))) = [''en $5.00'', ''Error, please refresh.'']"
proof -
  have b: "NumberFormat sample_runtime ''en'' compact_usd =
             Inr (\<lambda>x. ''en'' @ '' $'' @ toFixed (\<lambda>q. ''1e+21'') x 2)"
    by (simp add: sample_runtime_def)
  have c: "data (daily (layers2s (l2beat_response d))) = d" for d
    by (simp add: l2beat_response_def)
  show ?thesis
    using tvl_output [OF b c, of "replicate 30 (''d'', Fin 100, Fin 0) @ [(''d'', Fin 150, Fin 0)]"
        initial_state]
      tvl_output [OF b c, of "[(''d'', Fin 5, Fin 0)]" initial_state]
    by (simp add: error_text_def str_eval)
qed

text \<open>
  The claim as stated fails on a series of one point: the formatter is constructed and
  prints \<open>en $5.00\<close> for the value 5 of the last point, and the cell ends at the error
  text.
\<close>

theorem tvl_output_counterexample:
  "tvl (snd (fetchL2Beat sample_runtime ''en'' (Inr (l2beat_response [(''d'', Fin 5, Fin 0)]))
     initial_state)) = ''Error, please refresh.'' \<and>
   NumberFormat sample_runtime ''en'' compact_usd =
     Inr (\<lambda>x. ''en'' @ '' $'' @ toFixed (\<lambda>q. ''1e+21'') x 2) \<and>
   ''en'' @ '' $'' @ toFixed (\<lambda>q. ''1e+21'') (Fin 5) 2 = ''en $5.00''"
  by (simp add: fetchL2Beat_def fetchL2Beat_try_def fetchL2Beat_catch_def js_defs Let_def
      js_index_def fixture_defs str_eval)


section \<open>Writes of one cycle\<close>

text \<open>
  Claim C6, as amended. The three cells hold the loading text when the page is mounted;
  a render, also one that starts a new cycle, writes nothing and does not put the
  loading text back. In one run \<open>fetchL2Beat\<close> calls \<open>setL2PercentChange\<close> exactly once and
  \<open>fetchCryptoStats\<close> calls \<open>setAverageFee\<close> exactly once. \<open>setTVL\<close> is called once, except
  for a series of 1 to 30 points (formatter constructible), where it is called twice:
  with the formatted value and then with the error text. The value a cell ends with is
  the formatted one when the \<open>try\<close> block ran through, and the error text otherwise.
\<close>

theorem writes_per_cycle:
  "tvl (ui Layer2Page_mount) = ''loading...'' \<and>
   percentChangeL2 (ui Layer2Page_mount) = ''loading...'' \<and>
   averageFee (ui Layer2Page_mount) = ''loading...'' \<and>
   ui (step rt p (Render locale)) = ui p \<and>
   writes_to PercentChangeL2 (new_events s (snd (fetchL2Beat rt l outcome s))) =
     [percentChangeL2 (snd (fetchL2Beat rt l outcome s))] \<and>
   writes_to AverageFee (new_events s (snd (fetchCryptoStats rt l fee_outcome s))) =
     [averageFee (snd (fetchCryptoStats rt l fee_outcome s))] \<and>
   writes_to TVL (new_events s (snd (fetchL2Beat rt l outcome s))) =
     (case (outcome, NumberFormat rt l compact_usd) of
        (Inr r, Inr format) \<Rightarrow>
          (let d = data (daily (layers2s r))
           in if 0 < length d \<and> length d < 31
              then [format (fst (snd (last d))), error_text]
              else [tvl (snd (fetchL2Beat rt l outcome s))])
      | _ \<Rightarrow> [tvl (snd (fetchL2Beat rt l outcome s))]) \<and>
   tvl (snd (fetchL2Beat rt l outcome s)) =
     (case (outcome, NumberFormat rt l compact_usd) of
        (Inr r, Inr format) \<Rightarrow>
          (let d = data (daily (layers2s r))
           in if 31 \<le> length d then format (fst (snd (last d))) else error_text)
      | _ \<Rightarrow> error_text) \<and>
   percentChangeL2 (snd (fetchL2Beat rt l outcome s)) =
     (case (outcome, NumberFormat rt l compact_usd) of
        (Inr r, Inr format) \<Rightarrow>
          (let d = data (daily (layers2s r))
           in if 31 \<le> length d
              then percent_text rt (percentage_of (fst (snd (last d)))
                     (fst (snd (d ! (length d - 31)))) (fst (snd (d ! (length d - 31)))))
              else error_text)
      | _ \<Rightarrow> error_text) \<and>
   averageFee (snd (fetchCryptoStats rt l fee_outcome s)) =
     (case (fee_outcome, NumberFormat rt l compact_usd) of
        (Inr r, Inr format) \<Rightarrow> format (feeAverage_of (feeData_of r))
      | _ \<Rightarrow> error_text)"
proof -
  have mount: "tvl (ui Layer2Page_mount) = ''loading...'' \<and>
   percentChangeL2 (ui Layer2Page_mount) = ''loading...'' \<and>
   averageFee (ui Layer2Page_mount) = ''loading...''"
    by (simp add: Layer2Page_mount_def initial_state_def)
  have render: "ui (step rt p (Render locale)) = ui p"
    by (simp add: useEffect_def Let_def)
  have fee: "writes_to AverageFee (new_events s (snd (fetchCryptoStats rt l fee_outcome s))) =
     [averageFee (snd (fetchCryptoStats rt l fee_outcome s))] \<and>
     averageFee (snd (fetchCryptoStats rt l fee_outcome s)) =
     (case (fee_outcome, NumberFormat rt l compact_usd) of
        (Inr r, Inr format) \<Rightarrow> format (feeAverage_of (feeData_of r))
      | _ \<Rightarrow> error_text)"
  proof (cases rule: fetchCryptoStats_try_cases [where outcome = fee_outcome and rt = rt and l = l])
    case (rejected e)
    then show ?thesis by (simp add: fetchCryptoStats_rejected)
  next
    case (no_format r e)
    then show ?thesis by (simp add: fetchCryptoStats_no_format)
  next
    case (ok r format)
    then show ?thesis by (simp add: fetchCryptoStats_ok)
  qed
  have l2: "writes_to PercentChangeL2 (new_events s (snd (fetchL2Beat rt l outcome s))) =
     [percentChangeL2 (snd (fetchL2Beat rt l outcome s))] \<and>
   writes_to TVL (new_events s (snd (fetchL2Beat rt l outcome s))) =
     (case (outcome, NumberFormat rt l compact_usd) of
        (Inr r, Inr format) \<Rightarrow>
          (let d = data (daily (layers2s r))
           in if 0 < length d \<and> length d < 31
              then [format (fst (snd (last d))), error_text]
              else [tvl (snd (fetchL2Beat rt l outcome s))])
      | _ \<Rightarrow> [tvl (snd (fetchL2Beat rt l outcome s))]) \<and>
   tvl (snd (fetchL2Beat rt l outcome s)) =
     (case (outcome, NumberFormat rt l compact_usd) of
        (Inr r, Inr format) \<Rightarrow>
          (let d = data (daily (layers2s r))
           in if 31 \<le> length d then format (fst (snd (last d))) else error_text)
      | _ \<Rightarrow> error_text) \<and>
   percentChangeL2 (snd (fetchL2Beat rt l outcome s)) =
     (case (outcome, NumberFormat rt l compact_usd) of
        (Inr r, Inr format) \<Rightarrow>
          (let d = data (daily (layers2s r))
           in if 31 \<le> length d
              then percent_text rt (percentage_of (fst (snd (last d)))
                     (fst (snd (d ! (length d - 31)))) (fst (snd (d ! (length d - 31)))))
              else error_text)
      | _ \<Rightarrow> error_text)"
  proof (cases rule: fetchL2Beat_try_cases [where outcome = outcome and rt = rt and l = l])
    case (rejected e)
    then show ?thesis by (simp add: fetchL2Beat_rejected)
  next
    case (no_format r e)
    then show ?thesis by (simp add: fetchL2Beat_no_format)
  next
    case (empty r format)
    then show ?thesis by (simp add: fetchL2Beat_empty [OF empty(2,3)])
  next
    case (short r format)
    then have "data (daily (layers2s r)) \<noteq> []" by auto
    then show ?thesis
      using short
      by (simp add: fetchL2Beat_short [OF short(2) refl short(3,4)] nth_last Let_def)
  next
    case (long r format)
    then have "data (daily (layers2s r)) \<noteq> []" by auto
    then show ?thesis
      using long
      by (simp add: fetchL2Beat_long [OF long(2) refl long(3)] nth_last Let_def)
  qed
  show ?thesis
    using mount render fee l2 by simp
qed

text \<open>
  The claim as stated fails on a series of one point: \<open>setTVL\<close> is called twice, with
  the formatted value and then with the error text.
\<close>

theorem writes_per_cycle_counterexample:
  "writes_to TVL (new_events initial_state
     (snd (fetchL2Beat sample_runtime ''en'' (Inr (l2beat_response [(''d'', Fin 5, Fin 0)]))
       initial_state))) = [''en $5.00'', ''Error, please refresh.'']"
  by (simp add: fetchL2Beat_def fetchL2Beat_try_def fetchL2Beat_catch_def js_defs Let_def
      js_index_def fixture_defs str_eval new_events_def)

section \<open>The percent change\<close>

lemma digit_char_0: "digit_char 0 = CHR ''0''"
  by (simp add: digit_char_def)

lemma dec_digits_two:
  assumes "10 \<le> n" and "n < 100"
  shows "dec_digits n = [digit_char (n div 10), digit_char (n mod 10)]"
proof -
  have "n div 10 < 10" using assms(2) by simp
  then show ?thesis
    using assms(1) by (simp add: dec_digits_large dec_digits_small)
qed

lemma dec_digits_hundred:
  assumes "100 \<le> n"
  shows "dec_digits n = dec_digits (n div 100) @ [digit_char (n div 10 mod 10), digit_char (n mod 10)]"
proof -
  have a: "\<not> n < 10" using assms by simp
  have b: "\<not> n div 10 < 10" using assms by simp
  have c: "n div 10 div 10 = n div 100" by (simp add: div_mult2_eq)
  show ?thesis
    by (simp add: dec_digits_large [OF a] dec_digits_large [OF b] c)
qed

lemma dec_digits_nonempty: "dec_digits n \<noteq> []"
  by (subst dec_digits.simps) simp



lemma replicate_two: "replicate 2 c = [c, c]"
  by (simp add: numeral_2_eq_2)

lemma split_fixed2:
  "(let m = dec_digits n; k = length m;
        m = (if k \<le> 2 then replicate (2 + 1 - k) CHR ''0'' @ m else m);
        k = (if k \<le> 2 then 2 + 1 else k)
    in take (k - 2) m @ ''.'' @ drop (k - 2) m) =
   dec_digits (n div 100) @ ''.'' @ [digit_char (n div 10 mod 10), digit_char (n mod 10)]"
proof -
  consider "n < 10" | "10 \<le> n" "n < 100" | "100 \<le> n" by linarith
  then show ?thesis
  proof cases
    case 1
    have m: "dec_digits n = [digit_char n]" using 1 by (simp add: dec_digits_small)
    have r: "dec_digits (n div 100) = ''0''"
      using 1 by (simp add: dec_digits_small digit_char_0)
    have d: "n div 10 mod 10 = 0" "n mod 10 = n" using 1 by simp_all
    show ?thesis
      unfolding Let_def m r d by (simp add: replicate_two digit_char_0)
  next
    case 2
    have m: "dec_digits n = [digit_char (n div 10), digit_char (n mod 10)]"
      using 2 by (rule dec_digits_two)
    have r: "dec_digits (n div 100) = ''0''"
      using 2 by (simp add: dec_digits_small digit_char_0)
    have d: "n div 10 mod 10 = n div 10" using 2 by simp
    show ?thesis
      unfolding Let_def m r d by simp
  next
    case 3
    have ne: "dec_digits (n div 100) \<noteq> []" by (rule dec_digits_nonempty)
    have len: "length (dec_digits n) = length (dec_digits (n div 100)) + 2"
      by (simp add: dec_digits_hundred [OF 3])
    have big: "\<not> length (dec_digits n) \<le> 2" using ne len by simp
    have tk: "take (length (dec_digits n) - 2) (dec_digits n) = dec_digits (n div 100)"
      unfolding len by (simp add: dec_digits_hundred [OF 3])
    have dr: "drop (length (dec_digits n) - 2) (dec_digits n) =
                [digit_char (n div 10 mod 10), digit_char (n mod 10)]"
      unfolding len by (simp add: dec_digits_hundred [OF 3])
    show ?thesis
      unfolding Let_def using big tk dr by simp
  qed
qed


lemma dec_digits_or_zero: "(if n = 0 then ''0'' else dec_digits n) = dec_digits n"
  by (simp add: dec_digits_small digit_char_0)

lemma toFixed_2_Fin:
  assumes "\<bar>q\<bar> < 10 ^ 21"
  shows "toFixed big (Fin q) 2 = two_decimals q"
proof -
  have ab: "(if q < 0 then - q else q) = \<bar>q\<bar>" by simp
  have small: "\<not> 10 ^ 21 \<le> \<bar>q\<bar>" using assms by simp
  have two: "(2::nat) \<noteq> 0" by simp
  have "toFixed big (Fin q) 2 =
          (if q < 0 then ''-'' else []) @
          (let m = dec_digits (nat \<lfloor>\<bar>q\<bar> * 10 ^ 2 + 1 / 2\<rfloor>); k = length m;
               m = (if k \<le> 2 then replicate (2 + 1 - k) CHR ''0'' @ m else m);
               k = (if k \<le> 2 then 2 + 1 else k)
           in take (k - 2) m @ ''.'' @ drop (k - 2) m)"
    unfolding toFixed_def jsnum.case val.simps Let_def ab dec_digits_or_zero
      if_not_P [OF small] if_P [OF two] ..
  also have "\<dots> = two_decimals q"
    by (subst split_fixed2) (simp add: two_decimals_def Let_def)
  finally show ?thesis .
qed

lemma toFixed_2_NegZero: "toFixed big NegZero 2 = ''0.00''"
  by (simp add: str_eval)


lemma js_div_by_zero: "is_zero b \<Longrightarrow> js_div a b = NaN \<or> js_div a b = PosInf \<or> js_div a b = NegInf"
  by (simp add: js_div_def signed_inf_def)

lemma js_mul_not_finite:
  assumes "a = NaN \<or> a = PosInf \<or> a = NegInf"
  shows "js_mul a (Fin 100) = NaN \<or> js_mul a (Fin 100) = PosInf \<or> js_mul a (Fin 100) = NegInf"
  using assms by (auto simp: js_mul_def signed_inf_def)

lemma percentage_of_zero_prior:
  assumes "is_zero c"
  shows "percentage_of a b c = NaN \<or> percentage_of a b c = PosInf \<or> percentage_of a b c = NegInf"
  unfolding percentage_of_def by (rule js_mul_not_finite [OF js_div_by_zero [OF assms]])

lemma percent_text_not_finite:
  "percent_text rt NaN = ''NaN%''" "percent_text rt PosInf = ''+Infinity%''"
  "percent_text rt NegInf = ''-Infinity%''"
  by (simp_all add: percent_text_def toFixed_def)

lemma percent_text_Fin:
  assumes "\<bar>q\<bar> < 10 ^ 21"
  shows "percent_text rt (Fin q) = (if 0 < q then ''+'' else []) @ two_decimals q @ ''%''"
  by (simp add: percent_text_def toFixed_2_Fin [OF assms])

text \<open>
  Claim C4, as amended. For a series of at least 31 points (the formatter
  constructible), with \<open>v_last\<close> element 1 of the last point, \<open>v_prior\<close> element 1 of the
  point 30 places before it and \<open>p = (v_last - v_prior) / v_prior * 100\<close> in double
  arithmetic, the percent-change cell ends as \<open>p.toFixed(2)\<close> followed by a percent sign,
  with a plus sign in front exactly when \<open>p > 0\<close>. When \<open>p\<close> is finite and below \<open>10^21\<close>
  in magnitude, that is \<open>p\<close> with exactly two decimal places (\<open>0.00\<close> for the negative
  zero). When \<open>v_prior\<close> is zero, \<open>p\<close> is not finite and the cell shows \<open>NaN%\<close>,
  \<open>+Infinity%\<close> or \<open>-Infinity%\<close>.
\<close>

theorem percent_change_output:
  assumes "NumberFormat rt l compact_usd = Inr format"
    and "data (daily (layers2s r)) = d" and "31 \<le> length d"
    and "v_last = fst (snd (last d))" and "v_prior = fst (snd (d ! (length d - 31)))"
    and "p = js_mul (js_div (js_sub v_last v_prior) v_prior) (Fin 100)"
  shows "percentChangeL2 (snd (fetchL2Beat rt l (Inr r) s)) =
           (if js_gt p (Fin 0) then ''+'' else []) @ toFixed (NumberToString rt) p 2 @ ''%'' \<and>
         (\<forall>q. p = Fin q \<and> \<bar>q\<bar> < 10 ^ 21 \<longrightarrow>
            percentChangeL2 (snd (fetchL2Beat rt l (Inr r) s)) =
              (if 0 < q then ''+'' else []) @ two_decimals q @ ''%'') \<and>
         (p = NegZero \<longrightarrow> percentChangeL2 (snd (fetchL2Beat rt l (Inr r) s)) = ''0.00%'') \<and>
         (is_zero v_prior \<longrightarrow>
            percentChangeL2 (snd (fetchL2Beat rt l (Inr r) s)) = ''NaN%'' \<or>
            percentChangeL2 (snd (fetchL2Beat rt l (Inr r) s)) = ''+Infinity%'' \<or>
            percentChangeL2 (snd (fetchL2Beat rt l (Inr r) s)) = ''-Infinity%'')"
proof -
  have ne: "d \<noteq> []" using assms(3) by auto
  have pp: "p = percentage_of v_last v_prior v_prior"
    by (simp add: assms(6) percentage_of_def)
  have out: "percentChangeL2 (snd (fetchL2Beat rt l (Inr r) s)) = percent_text rt p"
    using ne by (simp add: fetchL2Beat_long [OF assms(1,2,3)] pp assms(4,5) nth_last)
  have one: "percent_text rt p =
           (if js_gt p (Fin 0) then ''+'' else []) @ toFixed (NumberToString rt) p 2 @ ''%''"
    by (simp add: percent_text_def)
  have two: "\<forall>q. p = Fin q \<and> \<bar>q\<bar> < 10 ^ 21 \<longrightarrow>
            percent_text rt p = (if 0 < q then ''+'' else []) @ two_decimals q @ ''%''"
    using percent_text_Fin by blast
  have three: "is_zero v_prior \<longrightarrow>
            percent_text rt p = ''NaN%'' \<or> percent_text rt p = ''+Infinity%'' \<or>
            percent_text rt p = ''-Infinity%''"
  proof
    assume "is_zero v_prior"
    then have "p = NaN \<or> p = PosInf \<or> p = NegInf"
      unfolding pp by (rule percentage_of_zero_prior)
    then show "percent_text rt p = ''NaN%'' \<or> percent_text rt p = ''+Infinity%'' \<or>
            percent_text rt p = ''-Infinity%''"
      using percent_text_not_finite by metis
  qed
  have zero: "p = NegZero \<longrightarrow> percent_text rt p = ''0.00%''"
    by (simp add: percent_text_def toFixed_2_NegZero)
  show ?thesis
    unfolding out using one two zero three by blast
qed

theorem percent_change_output_witness:
  "percentChangeL2 (snd (fetchL2Beat sample_runtime ''en''
     (Inr (l2beat_response (replicate 30 (''d'', Fin 100, Fin 0) @ [(''d'', Fin 150, Fin 0)])))
     initial_state)) = ''+50.00%'' \<and>
   js_mul (js_div (js_sub (Fin 150) (Fin 100)) (Fin 100)) (Fin 100) = Fin 50 \<and>
   two_decimals 50 = ''50.00'' \<and>
   percentChangeL2 (snd (fetchL2Beat sample_runtime ''en''
     (Inr (l2beat_response (replicate 30 (''d'', Fin 0, Fin 0) @ [(''d'', Fin 5, Fin 0)])))
     initial_state)) = ''+Infinity%''"
proof -
  have b: "NumberFormat sample_runtime ''en'' compact_usd =
             Inr (\<lambda>x. ''en'' @ '' $'' @ toFixed (\<lambda>q. ''1e+21'') x 2)"
    by (simp add: sample_runtime_def)
  have c: "data (daily (layers2s (l2beat_response d))) = d" for d
    by (simp add: l2beat_response_def)
  have p1: "js_mul (js_div (js_sub (Fin 150) (Fin 100)) (Fin 100)) (Fin 100) = Fin 50"
    by (simp add: num_eval)
  have p2: "js_mul (js_div (js_sub (Fin 5) (Fin 0)) (Fin 0)) (Fin 100) = PosInf"
    by (simp add: num_eval)
  have t: "two_decimals 50 = ''50.00''"
    by (simp add: two_decimals_def str_eval)
  have w1: "percentChangeL2 (snd (fetchL2Beat sample_runtime ''en''
     (Inr (l2beat_response (replicate 30 (''d'', Fin 100, Fin 0) @ [(''d'', Fin 150, Fin 0)])))
     initial_state)) = ''+50.00%''"
    using percent_change_output [OF b c _ refl refl refl,
        of "replicate 30 (''d'', Fin 100, Fin 0) @ [(''d'', Fin 150, Fin 0)]" initial_state]
    by (simp add: nth_append p1 t str_eval)
  have w2: "percentChangeL2 (snd (fetchL2Beat sample_runtime ''en''
     (Inr (l2beat_response (replicate 30 (''d'', Fin 0, Fin 0) @ [(''d'', Fin 5, Fin 0)])))
     initial_state)) = ''+Infinity%''"
    using percent_change_output [OF b c _ refl refl refl,
        of "replicate 30 (''d'', Fin 0, Fin 0) @ [(''d'', Fin 5, Fin 0)]" initial_state]
    by (simp add: nth_append p2 sample_runtime_def toFixed_def)
  show ?thesis using w1 w2 p1 t by simp
qed

text \<open>
  The claim as stated fails on a series of 31 points that goes from 0 to 5: the
  quotient is infinite, and the cell shows no decimal places.
\<close>

theorem percent_change_output_counterexample:
  "percentChangeL2 (snd (fetchL2Beat sample_runtime ''en''
     (Inr (l2beat_response (replicate 30 (''d'', Fin 0, Fin 0) @ [(''d'', Fin 5, Fin 0)])))
     initial_state)) = ''+Infinity%''"
  by (simp add: fetchL2Beat_success [OF fetchL2Beat_try_long [OF _ refl]] fixture_defs
      percent_text_def percentage_of_def num_eval str_eval nth_append)

section \<open>Cycles that overlap\<close>

lemma fetchL2Beat_cells_any_state:
  "tvl (snd (fetchL2Beat rt l outcome s)) = tvl (snd (fetchL2Beat rt l outcome s')) \<and>
   percentChangeL2 (snd (fetchL2Beat rt l outcome s)) =
     percentChangeL2 (snd (fetchL2Beat rt l outcome s'))"
proof (cases rule: fetchL2Beat_try_cases [where outcome = outcome and rt = rt and l = l])
  case (rejected e)
  then show ?thesis by (simp add: fetchL2Beat_rejected)
next
  case (no_format r e)
  then show ?thesis by (simp add: fetchL2Beat_no_format)
next
  case (empty r format)
  then show ?thesis by (simp add: fetchL2Beat_empty [OF empty(2,3)])
next
  case (short r format)
  then show ?thesis by (simp add: fetchL2Beat_short [OF short(2) refl short(3,4)])
next
  case (long r format)
  then show ?thesis by (simp add: fetchL2Beat_long [OF long(2) refl long(3)])
qed

lemma fetchCryptoStats_cell_any_state:
  "averageFee (snd (fetchCryptoStats rt l outcome s)) =
     averageFee (snd (fetchCryptoStats rt l outcome s'))"
proof (cases rule: fetchCryptoStats_try_cases [where outcome = outcome and rt = rt and l = l])
  case (rejected e)
  then show ?thesis by (simp add: fetchCryptoStats_rejected)
next
  case (no_format r e)
  then show ?thesis by (simp add: fetchCryptoStats_no_format)
next
  case (ok r format)
  then show ?thesis by (simp add: fetchCryptoStats_ok)
qed

lemma two_cycles_inflight:
  assumes "locale1 \<noteq> locale2"
  shows "run rt Layer2Page_mount [Render locale1, Render locale2] =
           \<lparr>ui = initial_state,
            inflight = [L2BeatRequest (getLocaleForNumberFormat rt locale1),
                        CryptoStatsRequest (getLocaleForNumberFormat rt locale1),
                        L2BeatRequest (getLocaleForNumberFormat rt locale2),
                        CryptoStatsRequest (getLocaleForNumberFormat rt locale2)],
            deps = Some locale2\<rparr>"
  using assms by (simp add: run_def Layer2Page_mount_def useEffect_def Let_def)

lemma run_append: "run rt p (xs @ ys) = run rt (run rt p xs) ys"
  by (simp add: run_def)

text \<open>
  Claim C3, as amended. The effect has no cleanup, no generation counter and no
  cancellation: a request in flight writes its cells when it settles, whatever has
  been rendered since. After a first cycle for one locale and a second for another,
  when the two requests of the second cycle settle first and those of the first cycle
  after them, all three cells end with what the first, superseded cycle derives from
  its own responses with its own locale. In any state of the page, a request that
  settles sets its cells to the result of its own function.
\<close>

theorem superseded_cycle_overwrites:
  assumes "locale1 \<noteq> locale2"
    and "final = run rt Layer2Page_mount
                   [Render locale1, Render locale2,
                    Settle 2 (L2BeatOutcome new_l2), Settle 2 (CryptoStatsOutcome new_fee),
                    Settle 0 (L2BeatOutcome old_l2), Settle 0 (CryptoStatsOutcome old_fee)]"
  shows "tvl (ui final) =
           tvl (snd (fetchL2Beat rt (getLocaleForNumberFormat rt locale1) old_l2 initial_state)) \<and>
         percentChangeL2 (ui final) =
           percentChangeL2 (snd (fetchL2Beat rt (getLocaleForNumberFormat rt locale1) old_l2
                                   initial_state)) \<and>
         averageFee (ui final) =
           averageFee (snd (fetchCryptoStats rt (getLocaleForNumberFormat rt locale1) old_fee
                              initial_state)) \<and>
         inflight final = [] \<and> deps final = Some locale2 \<and>
         (k < length (inflight p) \<and> inflight p ! k = L2BeatRequest l \<longrightarrow>
            tvl (ui (step rt p (Settle k (L2BeatOutcome a)))) =
              tvl (snd (fetchL2Beat rt l a initial_state)) \<and>
            percentChangeL2 (ui (step rt p (Settle k (L2BeatOutcome a)))) =
              percentChangeL2 (snd (fetchL2Beat rt l a initial_state))) \<and>
         (k < length (inflight p) \<and> inflight p ! k = CryptoStatsRequest l \<longrightarrow>
            averageFee (ui (step rt p (Settle k (CryptoStatsOutcome f)))) =
              averageFee (snd (fetchCryptoStats rt l f initial_state)))"
proof -
  have split: "[Render locale1, Render locale2,
                Settle 2 (L2BeatOutcome new_l2), Settle 2 (CryptoStatsOutcome new_fee),
                Settle 0 (L2BeatOutcome old_l2), Settle 0 (CryptoStatsOutcome old_fee)] =
               [Render locale1, Render locale2] @
               [Settle 2 (L2BeatOutcome new_l2), Settle 2 (CryptoStatsOutcome new_fee),
                Settle 0 (L2BeatOutcome old_l2), Settle 0 (CryptoStatsOutcome old_fee)]"
    by simp
  have fin: "final =
     \<lparr>ui = snd (fetchCryptoStats rt (getLocaleForNumberFormat rt locale1) old_fee
            (snd (fetchL2Beat rt (getLocaleForNumberFormat rt locale1) old_l2
              (snd (fetchCryptoStats rt (getLocaleForNumberFormat rt locale2) new_fee
                (snd (fetchL2Beat rt (getLocaleForNumberFormat rt locale2) new_l2
                  initial_state))))))),
      inflight = [], deps = Some locale2\<rparr>"
    unfolding assms(2) split run_append two_cycles_inflight [OF assms(1)]
    by (simp add: run_def remove_nth_def)
  have sched: "tvl (ui final) =
           tvl (snd (fetchL2Beat rt (getLocaleForNumberFormat rt locale1) old_l2 initial_state)) \<and>
         percentChangeL2 (ui final) =
           percentChangeL2 (snd (fetchL2Beat rt (getLocaleForNumberFormat rt locale1) old_l2
                                   initial_state)) \<and>
         averageFee (ui final) =
           averageFee (snd (fetchCryptoStats rt (getLocaleForNumberFormat rt locale1) old_fee
                              initial_state)) \<and>
         inflight final = [] \<and> deps final = Some locale2"
    unfolding fin
    using fetchCryptoStats_frame [of rt "getLocaleForNumberFormat rt locale1" old_fee]
      fetchL2Beat_cells_any_state [of rt "getLocaleForNumberFormat rt locale1" old_l2 _ initial_state]
      fetchCryptoStats_cell_any_state [of rt "getLocaleForNumberFormat rt locale1" old_fee _ initial_state]
    by simp
  have l2: "k < length (inflight p) \<and> inflight p ! k = L2BeatRequest l \<longrightarrow>
            tvl (ui (step rt p (Settle k (L2BeatOutcome a)))) =
              tvl (snd (fetchL2Beat rt l a initial_state)) \<and>
            percentChangeL2 (ui (step rt p (Settle k (L2BeatOutcome a)))) =
              percentChangeL2 (snd (fetchL2Beat rt l a initial_state))"
    using fetchL2Beat_cells_any_state [of rt l a "ui p" initial_state] by simp
  have fee: "k < length (inflight p) \<and> inflight p ! k = CryptoStatsRequest l \<longrightarrow>
            averageFee (ui (step rt p (Settle k (CryptoStatsOutcome f)))) =
              averageFee (snd (fetchCryptoStats rt l f initial_state))"
    using fetchCryptoStats_cell_any_state [of rt l f "ui p" initial_state] by simp
  show ?thesis
    using sched l2 fee by blast
qed

theorem superseded_cycle_overwrites_witness:
  "''en'' \<noteq> ''de'' \<and>
   averageFee (ui (run sample_runtime Layer2Page_mount
     [Render ''en'', Render ''de'',
      Settle 2 (L2BeatOutcome (Inl NetworkError)),
      Settle 2 (CryptoStatsOutcome (Inr \<lparr>fee_data = [fee_entry ''a'' (Fin 1), fee_entry ''b'' (Fin 3)]\<rparr>)),
      Settle 0 (L2BeatOutcome (Inl NetworkError)),
      Settle 0 (CryptoStatsOutcome (Inr \<lparr>fee_data = [fee_entry ''a'' (Fin 5)]\<rparr>))])) = ''en $5.00''"
proof -
  have ne: "''en'' \<noteq> ''de''" by simp
  have old: "averageFee (snd (fetchCryptoStats sample_runtime ''en''
               (Inr \<lparr>fee_data = [fee_entry ''a'' (Fin 5)]\<rparr>) initial_state)) = ''en $5.00''"
    by (simp add: fetchCryptoStats_def fetchCryptoStats_try_def js_defs feeAverage_of_def
        feeData_of_def fixture_defs num_eval str_eval)
  have loc: "getLocaleForNumberFormat sample_runtime ''en'' = ''en''"
    by (simp add: sample_runtime_def)
  show ?thesis
    using ne old superseded_cycle_overwrites [OF ne refl, of sample_runtime "Inl NetworkError"
        "Inr \<lparr>fee_data = [fee_entry ''a'' (Fin 1), fee_entry ''b'' (Fin 3)]\<rparr>"
        "Inl NetworkError" "Inr \<lparr>fee_data = [fee_entry ''a'' (Fin 5)]\<rparr>"]
    by (simp add: loc)
qed

text \<open>
  The claim as stated fails: the second cycle (locale \<open>de\<close>) has written the average
  fee \<open>de $2.00\<close> and the percent change \<open>+50.00%\<close>, and the requests of the first cycle
  (locale \<open>en\<close>), settling afterwards, overwrite them.
\<close>

theorem superseded_cycle_counterexample:
  "averageFee (ui (run sample_runtime Layer2Page_mount
     [Render ''en'', Render ''de'',
      Settle 3 (CryptoStatsOutcome (Inr \<lparr>fee_data = [fee_entry ''a'' (Fin 1), fee_entry ''b'' (Fin 3)]\<rparr>))]))
     = ''de $2.00'' \<and>
   averageFee (ui (run sample_runtime Layer2Page_mount
     [Render ''en'', Render ''de'',
      Settle 3 (CryptoStatsOutcome (Inr \<lparr>fee_data = [fee_entry ''a'' (Fin 1), fee_entry ''b'' (Fin 3)]\<rparr>)),
      Settle 1 (CryptoStatsOutcome (Inr \<lparr>fee_data = [fee_entry ''a'' (Fin 5)]\<rparr>))]))
     = ''en $5.00'' \<and>
   percentChangeL2 (ui (run sample_runtime Layer2Page_mount
     [Render ''en'', Render ''de'',
      Settle 2 (L2BeatOutcome (Inr (l2beat_response
        (replicate 30 (''d'', Fin 100, Fin 0) @ [(''d'', Fin 150, Fin 0)]))))]))
     = ''+50.00%'' \<and>
   percentChangeL2 (ui (run sample_runtime Layer2Page_mount
     [Render ''en'', Render ''de'',
      Settle 2 (L2BeatOutcome (Inr (l2beat_response
        (replicate 30 (''d'', Fin 100, Fin 0) @ [(''d'', Fin 150, Fin 0)])))),
      Settle 0 (L2BeatOutcome (Inl NetworkError))]))
     = ''Error, please refresh.''"
proof -
  have fee2: "fetchCryptoStats sample_runtime ''de''
      (Inr \<lparr>fee_data = [fee_entry ''a'' (Fin 1), fee_entry ''b'' (Fin 3)]\<rparr>) s =
      (Inr (), s\<lparr>averageFee := ''de $2.00'', trace := trace s @ [Write AverageFee ''de $2.00'']\<rparr>)" for s
    by (simp add: fetchCryptoStats_def fetchCryptoStats_try_def js_defs feeAverage_of_def
        feeData_of_def fixture_defs num_eval str_eval)
  have fee1: "fetchCryptoStats sample_runtime ''en''
      (Inr \<lparr>fee_data = [fee_entry ''a'' (Fin 5)]\<rparr>) s =
      (Inr (), s\<lparr>averageFee := ''en $5.00'', trace := trace s @ [Write AverageFee ''en $5.00'']\<rparr>)" for s
    by (simp add: fetchCryptoStats_def fetchCryptoStats_try_def js_defs feeAverage_of_def
        feeData_of_def fixture_defs num_eval str_eval)
  have l2new: "percentChangeL2 (snd (fetchL2Beat sample_runtime ''de''
      (Inr (l2beat_response (replicate 30 (''d'', Fin 100, Fin 0) @ [(''d'', Fin 150, Fin 0)]))) s))
      = ''+50.00%''" for s
    by (simp add: fetchL2Beat_success [OF fetchL2Beat_try_long [OF _ refl]] fixture_defs
      percent_text_def percentage_of_def num_eval str_eval nth_append)
  have l2old: "percentChangeL2 (snd (fetchL2Beat sample_runtime ''en'' (Inl NetworkError) s))
      = ''Error, please refresh.''" for s
    by (simp add: fetchL2Beat_rejected error_text_def)
  have loc: "getLocaleForNumberFormat sample_runtime x = x" for x
    by (simp add: sample_runtime_def)
  show ?thesis
    by (simp add: run_def Layer2Page_mount_def useEffect_def Let_def remove_nth_def loc
        fee1 fee2 l2new l2old)
qed

section \<open>The average fee\<close>

lemma round_half_even_of_int: "round_half_even (of_int m) = m"
  by (simp add: round_half_even_def)

lemma round_double_of_nat:
  assumes "n < 2 ^ 53"
  shows "round_double (of_nat n) = Fin (of_nat n)"
proof (cases "n = 0")
  case True
  then show ?thesis by (simp add: round_double_def)
next
  case False
  define b where "b = bitlen (int n)"
  define k where "k = nat (53 - b)"
  have npos: "0 < int n" using False by simp
  have b1: "1 \<le> b"
    unfolding b_def using npos bitlen_ge_iff_power [of 1 "int n"] by simp
  have b53: "b \<le> 53"
    unfolding b_def using assms bitlen_le_iff_power [of "int n" 53]
    by (simp add: of_nat_less_iff [of n "2 ^ 53", where ?'a = int, symmetric] del: of_nat_less_iff)
  have q1: "(1::rat) \<le> of_nat n" using False by simp
  have fl: "floorlog2 (of_nat n) = b - 1"
    using q1 by (simp add: floorlog2_def b_def)
  have e: "max (floorlog2 (of_nat n) - 52) (- 1074) = b - 53"
    using b1 by (simp add: fl)
  have p: "pow2 (b - 53) = 1 / 2 ^ k"
  proof (cases "b = 53")
    case True
    then show ?thesis by (simp add: pow2_def k_def)
  next
    case False
    then have "b - 53 < 0" using b53 by simp
    then show ?thesis by (simp add: pow2_def k_def)
  qed
  have quot: "(of_nat n :: rat) / pow2 (b - 53) = of_int (int n * 2 ^ k)"
    by (simp add: p)
  have m: "round_half_even (of_nat n / pow2 (b - 53)) = int n * 2 ^ k"
    unfolding quot by (rule round_half_even_of_int)
  have bl: "bitlen (int n * 2 ^ k) = b + int k"
    using npos by (simp add: b_def)
  have no_over: "\<not> 1024 < (b - 53) + bitlen (int n * 2 ^ k)"
    unfolding bl using b1 b53 by (simp add: k_def)
  have undo: "(of_int (int n * 2 ^ k) :: rat) * pow2 (b - 53) = of_nat n"
    by (simp add: p)
  have rm: "round_mag (of_nat n) = Some (of_nat n)"
    unfolding round_mag_def Let_def e m using no_over undo by simp
  show ?thesis
    using False by (simp add: round_double_def rm)
qed

lemma js_add_of_nat:
  assumes "a + b < 2 ^ 53"
  shows "js_add (Fin (of_nat a)) (Fin (of_nat b)) = Fin (of_nat (a + b))"
  using round_double_of_nat [OF assms] by simp

lemma foldl_js_add_of_nat:
  assumes "a + sum_list ks < 2 ^ 53"
  shows "foldl js_add (Fin (of_nat a)) (map (\<lambda>k. Fin (of_nat k)) ks) = Fin (of_nat (a + sum_list ks))"
  using assms
proof (induction ks arbitrary: a)
  case Nil
  show ?case by simp
next
  case (Cons k ks)
  have step: "a + k < 2 ^ 53" using Cons.prems by simp
  have rest: "(a + k) + sum_list ks < 2 ^ 53" using Cons.prems by (simp add: add.assoc)
  have "foldl js_add (Fin (of_nat a)) (map (\<lambda>k. Fin (of_nat k)) (k # ks)) =
          foldl js_add (js_add (Fin (of_nat a)) (Fin (of_nat k))) (map (\<lambda>k. Fin (of_nat k)) ks)"
    by simp
  also have "\<dots> = Fin (of_nat ((a + k) + sum_list ks))"
    unfolding js_add_of_nat [OF step] by (rule Cons.IH [OF rest])
  also have "(a + k) + sum_list ks = a + sum_list (k # ks)"
    by simp
  finally show ?case .
qed

lemma js_div_of_nat:
  assumes "0 < n"
  shows "js_div (Fin (of_nat a)) (Fin (of_nat n)) = round_double (of_nat a / of_nat n)"
proof (cases "a = 0")
  case True
  then show ?thesis using assms by (simp add: js_div_def signed_zero_def round_double_def)
next
  case False
  then have pos: "(0::rat) < of_nat a / of_nat n" using assms by simp
  show ?thesis
    using False assms pos
    by (simp add: js_div_def signed_zero_def round_double_def split: option.splits)
qed

lemma feeAverage_of_fold:
  "feeAverage_of xs =
     js_div (foldl js_add (Fin 0) (map (\<lambda>e. feeTransferEth (results e)) xs))
            (js_of_nat (length xs))"
  by (simp add: feeAverage_of_def foldl_map)

lemma feeAverage_of_nat_fees:
  assumes "map (\<lambda>e. feeTransferEth (results e)) xs = map (\<lambda>k. Fin (of_nat k)) ks"
    and "ks \<noteq> []" and "sum_list ks < 2 ^ 53" and "length ks < 2 ^ 53"
  shows "feeAverage_of xs = round_double (of_nat (sum_list ks) / of_nat (length ks))"
proof -
  have len: "length xs = length ks"
    using assms(1) by (metis length_map)
  have sum: "foldl js_add (Fin 0) (map (\<lambda>k. Fin (of_nat k)) ks) = Fin (of_nat (sum_list ks))"
    using foldl_js_add_of_nat [of 0 ks] assms(3) by simp
  have cnt: "js_of_nat (length ks) = Fin (of_nat (length ks))"
    unfolding js_of_nat_def by (rule round_double_of_nat [OF assms(4)])
  have pos: "0 < length ks" using assms(2) by simp
  show ?thesis
    unfolding feeAverage_of_fold assms(1) len sum cnt by (rule js_div_of_nat [OF pos])
qed

lemma foldl_js_add_exact:
  assumes "no_rounding a qs"
  shows "foldl js_add (Fin a) (map Fin qs) = Fin (a + sum_list qs)"
  using assms
proof (induction qs arbitrary: a)
  case Nil
  show ?case by simp
next
  case (Cons q qs)
  have step: "js_add (Fin a) (Fin q) = Fin (a + q)" using Cons.prems by simp
  have rest: "no_rounding (a + q) qs" using Cons.prems by simp
  have "foldl js_add (Fin a) (map Fin (q # qs)) = foldl js_add (js_add (Fin a) (Fin q)) (map Fin qs)"
    by simp
  also have "\<dots> = Fin ((a + q) + sum_list qs)"
    unfolding step by (rule Cons.IH [OF rest])
  also have "(a + q) + sum_list qs = a + sum_list (q # qs)"
    by simp
  finally show ?case .
qed

lemma js_div_by_count:
  assumes "0 < n"
  shows "js_div (Fin q) (Fin (of_nat n)) = round_double (q / of_nat n)"
proof -
  have n0: "(of_nat n :: rat) \<noteq> 0" and npos: "(0::rat) < of_nat n" using assms by simp_all
  consider "q = 0" | "0 < q" | "q < 0" by linarith
  then show ?thesis
  proof cases
    case 1
    then show ?thesis using n0 by (simp add: js_div_def signed_zero_def round_double_def)
  next
    case 2
    then have pos: "0 < q / of_nat n" using npos by simp
    show ?thesis
      using 2 n0 npos pos
      by (simp add: js_div_def signed_zero_def round_double_def split: option.splits)
  next
    case 3
    then have neg: "q / of_nat n < 0" using npos by (simp add: divide_neg_pos)
    have nz: "q / of_nat n \<noteq> 0" using 3 assms by simp
    have np: "\<not> 0 < q / of_nat n" using neg by simp
    have q0: "q \<noteq> 0" using 3 by simp
    have sign: "is_neg (Fin q) \<noteq> is_neg (Fin (of_nat n))" using 3 by simp
    show ?thesis
      using 3 q0 n0 nz np
      by (simp add: js_div_def signed_zero_def round_double_def split: option.splits)
  qed
qed

lemma feeAverage_of_exact_sums:
  assumes "map (\<lambda>e. feeTransferEth (results e)) xs = map Fin qs"
    and "qs \<noteq> []" and "length qs < 2 ^ 53" and "no_rounding 0 qs"
  shows "feeAverage_of xs = round_double (sum_list qs / of_nat (length qs))"
proof -
  have len: "length xs = length qs"
    using assms(1) by (metis length_map)
  have sum: "foldl js_add (Fin 0) (map Fin qs) = Fin (sum_list qs)"
    using foldl_js_add_exact [OF assms(4)] by simp
  have cnt: "js_of_nat (length qs) = Fin (of_nat (length qs))"
    unfolding js_of_nat_def by (rule round_double_of_nat [OF assms(3)])
  have pos: "0 < length qs" using assms(2) by simp
  show ?thesis
    unfolding feeAverage_of_fold assms(1) len sum cnt by (rule js_div_by_count [OF pos])
qed

lemma feeAverage_of_Nil: "feeAverage_of [] = NaN"
  by (simp add: feeAverage_of_def js_of_nat_def round_double_def js_div_def)

text \<open>
  Claim C7, as amended. The entries kept are exactly those whose id is not \<open>hermez\<close>,
  in their order: an entry with that id changes nothing. With a constructible
  formatter the cell ends as what the formatter prints for the average, and the
  average is the sum of the fees of the entries kept, added from the left starting at
  0, divided by their number, each addition and the division rounded to a double. It
  is NaN when no entry is kept. It is the arithmetic mean, rounded once to the nearest
  double, when no addition rounds, as for fees that are natural numbers with a sum
  below \<open>2^53\<close>. For the entries \<open>a\<close> with fee 1, \<open>hermez\<close> with fee 100 and \<open>b\<close> with fee 3
  the average is 2.
\<close>

theorem average_fee_in_double_arithmetic:
  assumes "NumberFormat rt l compact_usd = Inr format"
    and "kept = filter (\<lambda>e. entry_id e \<noteq> ''hermez'') (fee_data r)"
    and "average = js_div (foldl js_add (Fin 0) (map (\<lambda>e. feeTransferEth (results e)) kept))
                          (js_of_nat (length kept))"
  shows "feeData_of r = kept \<and>
         feeData_of \<lparr>fee_data = xs @ [fee_entry ''hermez'' v] @ ys\<rparr> =
           feeData_of \<lparr>fee_data = xs @ ys\<rparr> \<and>
         feeAverage_of (feeData_of r) = average \<and>
         averageFee (snd (fetchCryptoStats rt l (Inr r) s)) = format average \<and>
         (kept = [] \<longrightarrow> average = NaN) \<and>
         (map (\<lambda>e. feeTransferEth (results e)) kept = map Fin qs \<and> qs \<noteq> [] \<and>
          length qs < 2 ^ 53 \<and> no_rounding 0 qs \<longrightarrow>
            average = round_double (sum_list qs / of_nat (length qs))) \<and>
         (map (\<lambda>e. feeTransferEth (results e)) kept = map (\<lambda>k. Fin (of_nat k)) ks \<and>
          ks \<noteq> [] \<and> sum_list ks < 2 ^ 53 \<and> length ks < 2 ^ 53 \<longrightarrow>
            average = round_double (of_nat (sum_list ks) / of_nat (length ks))) \<and>
         feeAverage_of (feeData_of \<lparr>fee_data = [fee_entry ''a'' (Fin 1),
           fee_entry ''hermez'' (Fin 100), fee_entry ''b'' (Fin 3)]\<rparr>) = Fin 2"
proof -
  have a: "feeData_of r = kept"
    by (simp add: feeData_of_def assms(2))
  have b: "feeData_of \<lparr>fee_data = xs @ [fee_entry ''hermez'' v] @ ys\<rparr> =
           feeData_of \<lparr>fee_data = xs @ ys\<rparr>"
    by (simp add: feeData_of_def fee_entry_def)
  have avg: "feeAverage_of kept = average"
    unfolding assms(3) by (rule feeAverage_of_fold)
  have c: "feeAverage_of (feeData_of r) = average"
    unfolding a by (rule avg)
  have d: "averageFee (snd (fetchCryptoStats rt l (Inr r) s)) = format average"
    by (simp add: fetchCryptoStats_ok [OF assms(1)] c)
  have e: "kept = [] \<longrightarrow> average = NaN"
    using avg feeAverage_of_Nil by auto
  have f: "map (\<lambda>e. feeTransferEth (results e)) kept = map Fin qs \<and> qs \<noteq> [] \<and>
          length qs < 2 ^ 53 \<and> no_rounding 0 qs \<longrightarrow>
            average = round_double (sum_list qs / of_nat (length qs))"
    using feeAverage_of_exact_sums [of kept qs] avg by auto
  have g: "map (\<lambda>e. feeTransferEth (results e)) kept = map (\<lambda>k. Fin (of_nat k)) ks \<and>
          ks \<noteq> [] \<and> sum_list ks < 2 ^ 53 \<and> length ks < 2 ^ 53 \<longrightarrow>
            average = round_double (of_nat (sum_list ks) / of_nat (length ks))"
    using feeAverage_of_nat_fees [of kept ks] avg by auto
  have h: "feeAverage_of (feeData_of \<lparr>fee_data = [fee_entry ''a'' (Fin 1),
           fee_entry ''hermez'' (Fin 100), fee_entry ''b'' (Fin 3)]\<rparr>) = Fin 2"
    by (simp add: feeAverage_of_def feeData_of_def fee_entry_def num_eval)
  show ?thesis
    using a b c d e f g h by blast
qed

theorem average_fee_in_double_arithmetic_witness:
  "no_rounding 0 [1 / 4, 1 / 2] \<and>
   averageFee (snd (fetchCryptoStats sample_runtime ''en''
     (Inr \<lparr>fee_data = [fee_entry ''a'' (Fin (1 / 4)), fee_entry ''hermez'' (Fin 100),
                        fee_entry ''b'' (Fin (1 / 2))]\<rparr>) initial_state)) = ''en $0.38'' \<and>
   feeAverage_of (feeData_of \<lparr>fee_data = [fee_entry ''a'' (Fin (1 / 4)),
     fee_entry ''hermez'' (Fin 100), fee_entry ''b'' (Fin (1 / 2))]\<rparr>) =
     round_double (sum_list [1 / 4, 1 / 2] / of_nat (length [1 / 4 :: rat, 1 / 2])) \<and>
   round_double (sum_list [1 / 4, 1 / 2] / of_nat (length [1 / 4 :: rat, 1 / 2])) = Fin (3 / 8) \<and>
   feeAverage_of (feeData_of \<lparr>fee_data = [fee_entry ''hermez'' (Fin 100)]\<rparr>) = NaN"
proof -
  let ?r = "\<lparr>fee_data = [fee_entry ''a'' (Fin (1 / 4)), fee_entry ''hermez'' (Fin 100),
                          fee_entry ''b'' (Fin (1 / 2))]\<rparr>"
  let ?kept = "[fee_entry ''a'' (Fin (1 / 4)), fee_entry ''b'' (Fin (1 / 2))]"
  let ?format = "\<lambda>x. ''en'' @ '' $'' @ toFixed (\<lambda>q. ''1e+21'') x 2"
  let ?h = "\<lparr>fee_data = [fee_entry ''hermez'' (Fin 100)]\<rparr>"
  have fmt: "NumberFormat sample_runtime ''en'' compact_usd = Inr ?format"
    by (simp add: sample_runtime_def)
  have kept: "?kept = filter (\<lambda>e. entry_id e \<noteq> ''hermez'') (fee_data ?r)"
    by (simp add: fee_entry_def)
  have fees: "map (\<lambda>e. feeTransferEth (results e)) ?kept = map Fin [1 / 4, 1 / 2]"
    by (simp add: fee_entry_def)
  have h2: "[1 / 4 :: rat, 1 / 2] \<noteq> []" by simp
  have h3: "length [1 / 4 :: rat, 1 / 2] < 2 ^ 53" by simp
  have h4: "no_rounding 0 [1 / 4, 1 / 2]"
    by (simp add: num_eval)
  have mean: "round_double (sum_list [1 / 4, 1 / 2] / of_nat (length [1 / 4 :: rat, 1 / 2])) = Fin (3 / 8)"
    by (simp add: num_eval)
  note th = average_fee_in_double_arithmetic [OF fmt kept refl, of "[]" NaN "[]" initial_state
      "[1 / 4, 1 / 2]" "[]"]
  have w1: "feeAverage_of (feeData_of ?r) =
     round_double (sum_list [1 / 4, 1 / 2] / of_nat (length [1 / 4 :: rat, 1 / 2]))"
    using th fees h2 h3 h4 by metis
  have w2: "averageFee (snd (fetchCryptoStats sample_runtime ''en'' (Inr ?r) initial_state)) =
     ?format (feeAverage_of (feeData_of ?r))"
    using th by metis
  have w3: "?format (Fin (3 / 8)) = ''en $0.38''"
    by (simp add: str_eval)
  have w4: "averageFee (snd (fetchCryptoStats sample_runtime ''en'' (Inr ?r) initial_state)) =
     ''en $0.38''"
    unfolding w2 w1 mean by (rule w3)
  have hk: "[] = filter (\<lambda>e. entry_id e \<noteq> ''hermez'') (fee_data ?h)"
    by (simp add: fee_entry_def)
  note th0 = average_fee_in_double_arithmetic [OF fmt hk refl, of "[]" NaN "[]" initial_state "[]" "[]"]
  have w5: "feeAverage_of (feeData_of ?h) = NaN"
    using th0 by metis
  show ?thesis
    using h4 w4 w1 mean w5 by blast
qed

text \<open>
  The claim as stated fails on the fees 0.1, 0.2 and 0.3, taken as the doubles a
  response gives for them: the additions round, the code returns
  0.20000000000000004, and the arithmetic mean of the three doubles rounds to the
  double 0.2.
\<close>

theorem average_fee_counterexample:
  "round_double (1 / 10) = Fin (3602879701896397 / 36028797018963968) \<and>
   round_double (2 / 10) = Fin (3602879701896397 / 18014398509481984) \<and>
   round_double (3 / 10) = Fin (5404319552844595 / 18014398509481984) \<and>
   feeAverage_of (feeData_of
     \<lparr>fee_data = [fee_entry ''a'' (Fin (3602879701896397 / 36028797018963968)),
                  fee_entry ''b'' (Fin (3602879701896397 / 18014398509481984)),
                  fee_entry ''c'' (Fin (5404319552844595 / 18014398509481984))]\<rparr>) =
     Fin (7205759403792795 / 36028797018963968) \<and>
   round_double ((3602879701896397 / 36028797018963968 + 3602879701896397 / 18014398509481984 +
                  5404319552844595 / 18014398509481984) / 3) =
     Fin (3602879701896397 / 18014398509481984)"
  by (simp add: feeAverage_of_def feeData_of_def fee_entry_def num_eval)

end
